theory Spec2Isabelle
  imports Complex_Main
begin

section \<open>Text\<close>

text \<open>
  A Python \<open>str\<close> is a sequence of Unicode code points, and the service's tables,
  patterns and templates are Chinese text. A string is therefore modelled as the list of
  its code points (\<open>len\<close> is \<open>length\<close>, slicing is \<open>take\<close>/\<open>drop\<close>), and every
  literal of the source is written as the code points of its characters.
\<close>

type_synonym ustr = "nat list"

fun is_prefix :: "'a list \<Rightarrow> 'a list \<Rightarrow> bool" where
  "is_prefix [] ys = True"
| "is_prefix (x # xs) [] = False"
| "is_prefix (x # xs) (y # ys) = (x = y \<and> is_prefix xs ys)"

text \<open>\<open>contains sub s\<close> is Python's \<open>sub in s\<close> on strings.\<close>

fun contains :: "'a list \<Rightarrow> 'a list \<Rightarrow> bool" where
  "contains sub [] = (sub = [])"
| "contains sub (c # cs) = (is_prefix sub (c # cs) \<or> contains sub cs)"

text \<open>\<open>sep.join(xs)\<close>.\<close>

fun join :: "'a list \<Rightarrow> 'a list list \<Rightarrow> 'a list" where
  "join sep [] = []"
| "join sep [x] = x"
| "join sep (x # y # ys) = x @ sep @ join sep (y # ys)"

text \<open>\<open>list(dict.fromkeys(xs))\<close>: duplicates removed, the first occurrence kept.\<close>

definition ordered_unique :: "'a list \<Rightarrow> 'a list" where
  "ordered_unique xs = rev (remdups (rev xs))"

text \<open>\<open>xs[-6:]\<close>\<close>

definition last6 :: "'a list \<Rightarrow> 'a list" where
  "last6 xs = drop (length xs - 6) xs"

text \<open>The characters \<open>str.strip()\<close> removes (those for which \<open>str.isspace\<close> holds).\<close>

definition is_space :: "nat \<Rightarrow> bool" where
  "is_space c \<longleftrightarrow>
     (9 \<le> c \<and> c \<le> 13) \<or> (28 \<le> c \<and> c \<le> 32) \<or> c = 133 \<or> c = 160 \<or> c = 5760 \<or>
     (8192 \<le> c \<and> c \<le> 8202) \<or> c = 8232 \<or> c = 8233 \<or> c = 8239 \<or> c = 8287 \<or> c = 12288"

definition strip :: "ustr \<Rightarrow> ustr" where
  "strip s = rev (dropWhile is_space (rev (dropWhile is_space s)))"

text \<open>The character class of the regular expressions, U+4E00 to U+9FA5.\<close>

definition is_cjk :: "nat \<Rightarrow> bool" where
  "is_cjk c \<longleftrightarrow> 19968 \<le> c \<and> c \<le> 40869"

text \<open>
  \<open>re.findall\<close> with that class repeated 2 to \<open>n\<close> times: the matches are found left to right and do
  not overlap; each is greedy, so it takes characters of the class until it holds \<open>n\<close> of
  them or the run ends, and a run (or a rest of a run) of a single character matches
  nothing. \<open>cur\<close> is the match being read.
\<close>

fun findall_cjk :: "nat \<Rightarrow> ustr \<Rightarrow> ustr \<Rightarrow> ustr list" where
  "findall_cjk n cur [] = (if 2 \<le> length cur then [cur] else [])"
| "findall_cjk n cur (c # cs) =
     (if is_cjk c then
        (if Suc (length cur) = n then (cur @ [c]) # findall_cjk n [] cs
         else findall_cjk n (cur @ [c]) cs)
      else if 2 \<le> length cur then cur # findall_cjk n [] cs
      else findall_cjk n [] cs)"

definition potential_terms :: "nat \<Rightarrow> ustr \<Rightarrow> ustr list" where
  "potential_terms n s = findall_cjk n [] s"

text \<open>
  The alternatives of the pattern \<open>(...|...)$\<close> of qa_service.py line 166: question
  endings ("what is", "what does it mean", "what illness", "what symptoms", "symptoms",
  "what to do").
\<close>

definition question_suffixes :: "ustr list" where
  "question_suffixes =
     [[26159, 20160, 20040], [26159, 21861], [21861, 26159], [26159, 21861, 24847, 24605], [26159,
       20160, 20040, 24847, 24605], [26159, 20160, 20040, 30149], [24590, 20040, 22238, 20107],
       [26377, 21738, 20123, 30151, 29366], [30151, 29366], [24590, 20040, 21150]]"

text \<open>
  \<open>re.sub(r'(...)$', '', s)\<close> on a string without trailing newline: the leftmost
  position from which the rest of the string is one of the alternatives is where the
  match starts, and the match is removed.
\<close>

fun strip_question_suffix :: "ustr \<Rightarrow> ustr" where
  "strip_question_suffix [] = []"
| "strip_question_suffix (c # cs) =
     (if (c # cs) \<in> set question_suffixes then [] else c # strip_question_suffix cs)"

text \<open>\<open>text[i:i+n]\<close> for \<open>i\<close> in \<open>range(0, max(0, len(text) - n + 1))\<close>.\<close>

definition windows :: "nat \<Rightarrow> 'a list \<Rightarrow> 'a list list" where
  "windows n xs = map (\<lambda>i. take n (drop i xs)) [0 ..< length xs + 1 - n]"


section \<open>The graph store\<close>

text \<open>
  What \<open>get_full_disease_info\<close> returns (kg_service.py lines 441-459), with the fields
  the service reads. A field that is missing or null in the store is the empty string:
  the code tests each field for truth before it uses it.
\<close>

record disease_info =
  name :: ustr
  description :: ustr
  cause :: ustr
  prevent :: ustr
  symptoms :: "ustr list"
  common_drugs :: "ustr list"
  recommended_drugs :: "ustr list"
  do_eat :: "ustr list"
  not_eat :: "ustr list"
  checks :: "ustr list"
  departments :: "ustr list"
  cure_ways :: "ustr list"
  complications :: "ustr list"

text \<open>
  The state of \<open>kg_service\<close>: the flag \<open>_is_connected\<close> and, for a fixed content of the
  Neo4j database, what its queries answer. \<open>disease_hits kw limit\<close> and
  \<open>symptom_hits kw limit\<close> are the answers of the searches of \<open>search_disease\<close> and
  \<open>search_symptom\<close> (exact, full-text, then CONTAINS); \<open>disease_records\<close> and
  \<open>symptom_diseases\<close> those of \<open>get_full_disease_info\<close> and
  \<open>get_diseases_by_symptom\<close>. Every method of the service catches the errors of its
  queries and returns the empty answer.
\<close>

record kg_store =
  is_connected :: bool
  disease_hits :: "ustr \<Rightarrow> nat \<Rightarrow> ustr list"
  symptom_hits :: "ustr \<Rightarrow> nat \<Rightarrow> ustr list"
  disease_records :: "ustr \<Rightarrow> disease_info option"
  symptom_diseases :: "ustr \<Rightarrow> ustr list"

text \<open>
  The searches sent to the database are recorded, in order, so that a statement can say
  which ones a resolver issues. A method called while the store is disconnected returns at
  once and sends nothing.
\<close>

datatype probe = DiseaseSearch ustr nat | SymptomSearch ustr nat

definition search_disease :: "kg_store \<Rightarrow> ustr \<Rightarrow> nat \<Rightarrow> probe list \<Rightarrow> ustr list \<times> probe list" where
  "search_disease kg kw limit sent =
     (if \<not> is_connected kg then ([], sent)
      else (disease_hits kg kw limit, sent @ [DiseaseSearch kw limit]))"

definition search_symptom :: "kg_store \<Rightarrow> ustr \<Rightarrow> nat \<Rightarrow> probe list \<Rightarrow> ustr list \<times> probe list" where
  "search_symptom kg kw limit sent =
     (if \<not> is_connected kg then ([], sent)
      else (symptom_hits kg kw limit, sent @ [SymptomSearch kw limit]))"

definition get_full_disease_info :: "kg_store \<Rightarrow> ustr \<Rightarrow> disease_info option" where
  "get_full_disease_info kg entity =
     (if \<not> is_connected kg then None else disease_records kg entity)"

definition get_diseases_by_symptom :: "kg_store \<Rightarrow> ustr \<Rightarrow> ustr list" where
  "get_diseases_by_symptom kg entity =
     (if \<not> is_connected kg then [] else symptom_diseases kg entity)"

section \<open>Entity resolution\<close>

record chat_message =
  role :: ustr
  content :: ustr

definition role_user :: ustr where
  "role_user = [117, 115, 101, 114]"

text \<open>\<open>if history\<close>: neither \<open>None\<close> nor the empty list.\<close>

fun has_history :: "chat_message list option \<Rightarrow> bool" where
  "has_history None = False"
| "has_history (Some []) = False"
| "has_history (Some (m # ms)) = True"

fun history_list :: "chat_message list option \<Rightarrow> chat_message list" where
  "history_list None = []"
| "history_list (Some ms) = ms"

text \<open>The table of \<open>_extract_entities\<close> (qa_service.py lines 226-238), in its order.\<close>

definition medical_terms :: "ustr list" where
  "medical_terms =
     [[22836, 30171], [20559, 22836, 30171], [32039, 24352, 24615, 22836, 30171], [21457, 28909],
       [21457, 28903], [24863, 20882], [27969, 24863], [21683, 22013], [24694, 24515], [21589,
       21520], [33145, 30171], [33145, 27899], [20415, 31192], [33016, 30171], [24515, 24760],
       [39640, 34880, 21387], [31958, 23615, 30149], [21742, 21912], [36807, 25935], [30382,
       30137], [22833, 30496], [28966, 34385], [25233, 37057], [24067, 27931, 33452], [23545,
       20057, 37232, 27688, 22522, 37210], [38463, 21496, 21305, 26519], [25239, 29983, 32032],
       [32500, 29983, 32032], [33041, 33180, 28814], [33041, 21330, 20013], [20013, 39118],
       [30315, 30187], [24085, 37329, 26862], [30031, 20809], [39048, 37096, 20725, 30828],
       [24847, 35782], [35270, 21147], [20047, 21147], [30130, 21171], [32954, 28814], [25903,
       27668, 31649, 28814], [32963, 28814], [32928, 28814], [32925, 28814], [32958, 28814],
       [20896, 24515, 30149], [24515, 32908, 26775, 27515], [24515, 32478, 30171], [24515, 24459,
       22833, 24120], [39592, 25240], [20851, 33410, 28814], [33136, 30171], [39048, 26894,
       30149], [32937, 21608, 28814], [28287, 30137], [33640, 40635, 30137], [30180, 30126],
       [38134, 23633, 30149], [36139, 34880], [30333, 34880, 30149], [28107, 24052, 30244]]"

definition extract_entities :: "ustr \<Rightarrow> ustr list" where
  "extract_entities query = filter (\<lambda>term. contains term query) medical_terms"

text \<open>
  \<open>SYNONYMS\<close> (qa_service.py lines 34-41), colloquial name and canonical name, in the
  order of the dictionary.
\<close>

definition SYNONYMS :: "(ustr \<times> ustr) list" where
  "SYNONYMS =
     [([23567, 20799, 40635, 30201, 30151], [33034, 39635, 28784, 36136, 28814]), ([23567, 20799,
       40635, 30201], [33034, 39635, 28784, 36136, 28814]), ([20799, 40635, 30201], [33034, 39635,
       28784, 36136, 28814]), ([26222, 36890, 27969, 24863], [27969, 24863]), ([27969, 24863],
       [27969, 34892, 24615, 24863, 20882]), ([24863, 20882], [19978, 21628, 21560, 36947, 24863,
       26579])]"

text \<open>Lines 116-118: the loop over the synonyms.\<close>

fun add_synonyms :: "(ustr \<times> ustr) list \<Rightarrow> ustr \<Rightarrow> ustr list \<Rightarrow> ustr list" where
  "add_synonyms [] query found = found"
| "add_synonyms ((colloquial, canonical) # ps) query found =
     add_synonyms ps query
       (if contains colloquial query \<and> canonical \<notin> set found then found @ [canonical]
        else found)"

text \<open>
  The loop over the candidate terms (lines 127-136, 205-214 and 265-274): a term already
  found is passed over; otherwise the first disease hit is kept, and the symptom search is
  tried only when there is none. The state is the list \<open>found_entities\<close> and the searches
  sent so far.
\<close>

type_synonym resolver_state = "ustr list \<times> probe list"

fun kg_term_scan :: "kg_store \<Rightarrow> ustr list \<Rightarrow> resolver_state \<Rightarrow> resolver_state" where
  "kg_term_scan kg [] st = st"
| "kg_term_scan kg (t # ts) (found, sent) =
     (if t \<in> set found then kg_term_scan kg ts (found, sent)
      else case search_disease kg t 1 sent of
        (d # ds, sent1) \<Rightarrow> kg_term_scan kg ts (found @ [d], sent1)
      | ([], sent1) \<Rightarrow>
          (case search_symptom kg t 1 sent1 of
             (s # ss, sent2) \<Rightarrow> kg_term_scan kg ts (found @ [s], sent2)
           | ([], sent2) \<Rightarrow> kg_term_scan kg ts (found, sent2)))"

text \<open>Lines 147-157: the same probes over the terms of one message, left at the first hit.\<close>

fun history_term_scan :: "kg_store \<Rightarrow> ustr list \<Rightarrow> resolver_state \<Rightarrow> resolver_state" where
  "history_term_scan kg [] st = st"
| "history_term_scan kg (t # ts) (found, sent) =
     (if t \<in> set found then history_term_scan kg ts (found, sent)
      else case search_disease kg t 1 sent of
        (d # ds, sent1) \<Rightarrow> (found @ [d], sent1)
      | ([], sent1) \<Rightarrow>
          (case search_symptom kg t 1 sent1 of
             (s # ss, sent2) \<Rightarrow> (found @ [s], sent2)
           | ([], sent2) \<Rightarrow> history_term_scan kg ts (found, sent2)))"

text \<open>Lines 142-159: the messages, newest first; only those of the user are read.\<close>

fun history_scan :: "kg_store \<Rightarrow> chat_message list \<Rightarrow> resolver_state \<Rightarrow> resolver_state" where
  "history_scan kg [] st = st"
| "history_scan kg (msg # msgs) st =
     (if role msg \<noteq> role_user then history_scan kg msgs st
      else let st' = history_term_scan kg (potential_terms 12 (content msg)) st
           in if fst st' \<noteq> [] then st' else history_scan kg msgs st')"

text \<open>Lines 180-187: the windows of one length, left at the first disease hit.\<close>

fun window_scan :: "kg_store \<Rightarrow> ustr list \<Rightarrow> resolver_state \<Rightarrow> resolver_state" where
  "window_scan kg [] st = st"
| "window_scan kg (sub # subs) (found, sent) =
     (if sub \<in> set found then window_scan kg subs (found, sent)
      else case search_disease kg sub 1 sent of
        (d # ds, sent1) \<Rightarrow> (found @ [d], sent1)
      | ([], sent1) \<Rightarrow> window_scan kg subs (found, sent1))"

text \<open>Lines 179-189: the lengths, longest first.\<close>

fun ngram_scan :: "kg_store \<Rightarrow> ustr \<Rightarrow> nat list \<Rightarrow> resolver_state \<Rightarrow> resolver_state" where
  "ngram_scan kg txt [] st = st"
| "ngram_scan kg txt (n # ns) st =
     (let st' = window_scan kg (windows n txt) st
      in if fst st' \<noteq> [] then st' else ngram_scan kg txt ns st')"

text \<open>Lines 111-136: the table, the synonyms, and the probes of the question's terms.\<close>

definition current_turn_stage :: "kg_store \<Rightarrow> ustr \<Rightarrow> resolver_state" where
  "current_turn_stage kg query =
     (let found = add_synonyms SYNONYMS query (extract_entities query)
      in if is_connected kg then kg_term_scan kg (potential_terms 6 query) (found, [])
         else (found, []))"

text \<open>Lines 139-159: the search back through the history.\<close>

definition history_backoff_stage ::
    "kg_store \<Rightarrow> chat_message list option \<Rightarrow> resolver_state \<Rightarrow> resolver_state" where
  "history_backoff_stage kg history st =
     (if fst st = [] \<and> has_history history
      then history_scan kg (rev (last6 (history_list history))) st
      else st)"

text \<open>Lines 162-189: the cleaned question as a whole, then its windows.\<close>

definition aggressive_backoff_stage :: "kg_store \<Rightarrow> ustr \<Rightarrow> resolver_state \<Rightarrow> resolver_state" where
  "aggressive_backoff_stage kg query st =
     (if fst st \<noteq> [] then st
      else
        let cleaned = strip (strip_question_suffix (strip query));
            st1 = (if cleaned \<noteq> []
                   then case search_disease kg cleaned 3 (snd st) of
                          (diseases, sent1) \<Rightarrow> (fst st @ diseases, sent1)
                   else st)
        in if fst st1 = [] then ngram_scan kg (filter is_cjk query) [6, 5, 4, 3, 2] st1
           else st1)"

text \<open>Lines 216-218.\<close>

fun append_missing :: "'a list \<Rightarrow> 'a list \<Rightarrow> 'a list" where
  "append_missing [] found = found"
| "append_missing (ent # ents) found =
     append_missing ents (if ent \<notin> set found then found @ [ent] else found)"

text \<open>Lines 197-218: the history and the question together.\<close>

definition history_merge_stage ::
    "kg_store \<Rightarrow> ustr \<Rightarrow> chat_message list option \<Rightarrow> resolver_state \<Rightarrow> resolver_state" where
  "history_merge_stage kg query history st =
     (if has_history history \<and> is_connected kg then
        let combined_text =
              join [32] (map content (last6 (history_list history))) @ [32] @ query;
            more_entities = extract_entities combined_text;
            st' = kg_term_scan kg (potential_terms 6 combined_text) st
        in (append_missing more_entities (fst st'), snd st')
      else st)"

text \<open>
  \<open>_extract_entities_from_kg\<close>, with the searches it sent to the database, and the
  entities alone.
\<close>

definition extract_entities_from_kg_traced ::
    "kg_store \<Rightarrow> ustr \<Rightarrow> chat_message list option \<Rightarrow> resolver_state" where
  "extract_entities_from_kg_traced kg query history =
     (let st = history_merge_stage kg query history
                 (aggressive_backoff_stage kg query
                    (history_backoff_stage kg history (current_turn_stage kg query)))
      in (ordered_unique (fst st), snd st))"

definition extract_entities_from_kg :: "kg_store \<Rightarrow> ustr \<Rightarrow> chat_message list option \<Rightarrow> ustr list" where
  "extract_entities_from_kg kg query history = fst (extract_entities_from_kg_traced kg query history)"

text \<open>\<open>_extract_entities_from_query_only\<close> (lines 248-277).\<close>

definition extract_entities_from_query_only_traced :: "kg_store \<Rightarrow> ustr \<Rightarrow> resolver_state" where
  "extract_entities_from_query_only_traced kg query =
     (let st = (if is_connected kg
                then kg_term_scan kg (potential_terms 6 query) (extract_entities query, [])
                else (extract_entities query, []))
      in (ordered_unique (fst st), snd st))"

definition extract_entities_from_query_only :: "kg_store \<Rightarrow> ustr \<Rightarrow> ustr list" where
  "extract_entities_from_query_only kg query = fst (extract_entities_from_query_only_traced kg query)"


section \<open>Graph paths and graph context\<close>

text \<open>The models of app/models/query.py. \<open>properties\<close> is a dictionary of strings.\<close>

record kg_node =
  node_id :: ustr
  label :: ustr
  node_type :: ustr
  properties :: "(ustr \<times> ustr) list"

record kg_edge =
  edge_source :: ustr
  edge_target :: ustr
  edge_type :: ustr
  edge_properties :: "(ustr \<times> ustr) list"

record kg_path =
  nodes :: "kg_node list"
  edges :: "kg_edge list"
  relevance_score :: real
  path_source :: ustr
  path_confidence :: real

text \<open>kg_service.py lines 475-525: the path of an entity that is a disease.\<close>

definition disease_path :: "ustr \<Rightarrow> disease_info \<Rightarrow> kg_path" where
  "disease_path entity info =
     (let all_drugs = common_drugs info @ recommended_drugs info
      in \<lparr>nodes =
            \<lparr>node_id = [100, 105, 115, 101, 97, 115, 101, 95] @ entity, label = name info,
              node_type = [68, 105, 115, 101, 97, 115, 101],
              properties = [([100, 101, 115, 99, 114, 105, 112, 116, 105, 111, 110], description
                info), ([99, 97, 117, 115, 101], cause info),
                            ([112, 114, 101, 118, 101, 110, 116], prevent info)]\<rparr>
            # map (\<lambda>symptom. \<lparr>node_id = [115, 121, 109, 112, 116, 111, 109, 95] @
              symptom, label = symptom,
                                  node_type = [83, 121, 109, 112, 116, 111, 109], properties =
                                    []\<rparr>)
                  (take 5 (symptoms info))
            @ map (\<lambda>drug. \<lparr>node_id = [100, 114, 117, 103, 95] @ drug, label = drug,
                               node_type = [68, 114, 117, 103], properties = []\<rparr>)
                  (take 3 all_drugs),
          edges =
            map (\<lambda>symptom. \<lparr>edge_source = [100, 105, 115, 101, 97, 115, 101, 95] @
              entity,
                                edge_target = [115, 121, 109, 112, 116, 111, 109, 95] @ symptom,
                                edge_type = [104, 97, 115, 95, 115, 121, 109, 112, 116, 111, 109],
                                edge_properties = [([110, 97, 109, 101], [30151, 29366])]\<rparr>)
                (take 5 (symptoms info))
            @ map (\<lambda>drug. \<lparr>edge_source = [100, 105, 115, 101, 97, 115, 101, 95] @
              entity,
                               edge_target = [100, 114, 117, 103, 95] @ drug,
                               edge_type = [99, 111, 109, 109, 111, 110, 95, 100, 114, 117, 103],
                               edge_properties = [([110, 97, 109, 101], [24120, 29992, 33647,
                                 21697])]\<rparr>)
                  (take 3 all_drugs),
          relevance_score = 0.9, path_source = [110, 101, 111, 52, 106], path_confidence =
            0.9\<rparr>)"

text \<open>Lines 531-559: the path of an entity that is a symptom of some diseases.\<close>

definition symptom_path :: "ustr \<Rightarrow> ustr list \<Rightarrow> kg_path" where
  "symptom_path entity diseases =
     \<lparr>nodes =
        \<lparr>node_id = [115, 121, 109, 112, 116, 111, 109, 95] @ entity, label = entity,
          node_type = [83, 121, 109, 112, 116, 111, 109],
          properties = []\<rparr>
        # map (\<lambda>disease. \<lparr>node_id = [100, 105, 115, 101, 97, 115, 101, 95] @
          disease, label = disease,
                              node_type = [68, 105, 115, 101, 97, 115, 101], properties =
                                []\<rparr>)
              (take 5 diseases),
      edges =
        map (\<lambda>disease. \<lparr>edge_source = [100, 105, 115, 101, 97, 115, 101, 95] @
          disease,
                            edge_target = [115, 121, 109, 112, 116, 111, 109, 95] @ entity,
                            edge_type = [104, 97, 115, 95, 115, 121, 109, 112, 116, 111, 109],
                            edge_properties = [([110, 97, 109, 101], [30151, 29366])]\<rparr>)
            (take 5 diseases),
      relevance_score = 0.8, path_source = [110, 101, 111, 52, 106], path_confidence = 0.8\<rparr>"

text \<open>The loop of \<open>find_paths_for_query\<close> over the entities (lines 470-559).\<close>

fun collect_paths :: "kg_store \<Rightarrow> ustr list \<Rightarrow> kg_path list" where
  "collect_paths kg [] = []"
| "collect_paths kg (entity # es) =
     (case get_full_disease_info kg entity of
        Some info \<Rightarrow>
          if description info \<noteq> [] then disease_path entity info # collect_paths kg es
          else (case get_diseases_by_symptom kg entity of
                  [] \<Rightarrow> collect_paths kg es
                | d # ds \<Rightarrow> symptom_path entity (d # ds) # collect_paths kg es)
      | None \<Rightarrow>
          (case get_diseases_by_symptom kg entity of
             [] \<Rightarrow> collect_paths kg es
           | d # ds \<Rightarrow> symptom_path entity (d # ds) # collect_paths kg es))"

definition find_paths_for_query :: "kg_store \<Rightarrow> ustr list \<Rightarrow> kg_path list" where
  "find_paths_for_query kg entities =
     (if \<not> is_connected kg then [] else take 5 (collect_paths kg (take 5 entities)))"

text \<open>
  The lines of the block that \<open>get_kg_context_for_query\<close> renders for a disease
  (kg_service.py lines 574-600). Each is empty when its field is. The description is
  written out whole (line 576); the cause and the prevention are cut at 200 characters,
  with three dots after the cut, when they are longer (lines 579-584).
\<close>

definition description_line :: "disease_info \<Rightarrow> ustr" where
  "description_line info =
     (if description info \<noteq> [] then [31616, 20171, 65306] @ description info @ [10] else [])"

definition cause_line :: "disease_info \<Rightarrow> ustr" where
  "cause_line info =
     (if cause info \<noteq> [] then
        (if 200 < length (cause info) then [30149, 22240, 65306] @ take 200 (cause info) @ [46,
          46, 46, 10]
         else [30149, 22240, 65306] @ cause info @ [10])
      else [])"

definition prevent_line :: "disease_info \<Rightarrow> ustr" where
  "prevent_line info =
     (if prevent info \<noteq> [] then
        (if 200 < length (prevent info) then [39044, 38450, 65306] @ take 200 (prevent info) @
          [46, 46, 46, 10]
         else [39044, 38450, 65306] @ prevent info @ [10])
      else [])"

text \<open>A line that lists names: \<open>label\<close>, at most \<open>n\<close> of the names joined by a comma.\<close>

definition names_line :: "ustr \<Rightarrow> nat \<Rightarrow> ustr list \<Rightarrow> ustr" where
  "names_line lbl n names =
     (if names \<noteq> [] then lbl @ join [44, 32] (take n names) @ [10] else [])"

definition drugs_line :: "disease_info \<Rightarrow> ustr" where
  "drugs_line info =
     (if common_drugs info \<noteq> [] \<or> recommended_drugs info \<noteq> []
      then [24120, 29992, 33647, 29289, 65306] @ join [44, 32] (take 8 (common_drugs info @
        recommended_drugs info))
           @ [10]
      else [])"

definition disease_context :: "disease_info \<Rightarrow> ustr" where
  "disease_context info =
     [10, 12304] @ name info @ [12305, 10]
     @ description_line info
     @ names_line [30151, 29366, 65306] 10 (symptoms info)
     @ cause_line info
     @ prevent_line info
     @ (if departments info \<noteq> []
        then [23601, 35786, 31185, 23460, 65306] @ join [44, 32] (departments info) @ [10] else [])
     @ names_line [27835, 30103, 26041, 27861, 65306] 5 (cure_ways info)
     @ drugs_line info
     @ names_line [23452, 21507, 39135, 29289, 65306] 5 (do_eat info)
     @ names_line [24524, 21507, 39135, 29289, 65306] 5 (not_eat info)
     @ names_line [26816, 26597, 39033, 30446, 65306] 5 (checks info)
     @ names_line [24182, 21457, 30151, 65306] 5 (complications info)"

text \<open>Lines 608-609: the block of an entity that is a symptom.\<close>

definition symptom_context :: "ustr \<Rightarrow> ustr list \<Rightarrow> ustr" where
  "symptom_context entity diseases =
     [10, 12304, 30151, 29366, 65306] @ entity @ [12305, 10]
     @ [21487, 33021, 30456, 20851, 30340, 30142, 30149, 65306] @ join [44, 32] (take 10 diseases)
       @ [10]"

fun context_parts :: "kg_store \<Rightarrow> ustr list \<Rightarrow> ustr list" where
  "context_parts kg [] = []"
| "context_parts kg (entity # es) =
     (case get_full_disease_info kg entity of
        Some info \<Rightarrow>
          if description info \<noteq> [] then disease_context info # context_parts kg es
          else (case get_diseases_by_symptom kg entity of
                  [] \<Rightarrow> context_parts kg es
                | d # ds \<Rightarrow> symptom_context entity (d # ds) # context_parts kg es)
      | None \<Rightarrow>
          (case get_diseases_by_symptom kg entity of
             [] \<Rightarrow> context_parts kg es
           | d # ds \<Rightarrow> symptom_context entity (d # ds) # context_parts kg es))"

definition get_kg_context_for_query :: "kg_store \<Rightarrow> ustr list \<Rightarrow> ustr" where
  "get_kg_context_for_query kg entities =
     (if \<not> is_connected kg then [] else join [10] (context_parts kg (take 3 entities)))"


section \<open>Evidence and the template answers\<close>

datatype source_type = PUBMED | GUIDELINE | DRUGBANK | KNOWLEDGE_GRAPH_SOURCE | CLINICAL_TRIAL
  | WHO | OTHER

text \<open>\<open>Evidence\<close> (app/models/query.py lines 19-30); the bounds \<open>ge=0, le=1\<close> of its
  confidence are checked when the vector store builds the item.\<close>

record evidence =
  source :: ustr
  src_type :: source_type
  snippet :: ustr
  pmid :: "ustr option"
  doi :: "ustr option"
  url :: "ustr option"
  confidence :: real
  publication_date :: "ustr option"
  ev_section :: "ustr option"

definition evidence_valid :: "evidence \<Rightarrow> bool" where
  "evidence_valid ev \<longleftrightarrow> 0 \<le> confidence ev \<and> confidence ev \<le> 1"

text \<open>The notice that closes every template answer (qa_service.py line 403): "this answer
  was generated from the medical knowledge graph, no AI model was used".\<close>

definition fallback_notice :: ustr where
  "fallback_notice =
     [10, 10, 45, 45, 45, 10, 128218, 32, 42, 42, 25552, 31034, 42, 42, 65306, 26412, 22238,
       31572, 22522, 20110, 21307, 30103, 30693, 35782, 22270, 35889, 29983, 25104, 65292, 26410,
       20351, 29992, 65, 73, 22823, 27169, 22411, 12290, 10]"

text \<open>Lines 407-409: the frame around the graph context.\<close>

definition kg_answer_header :: ustr where
  "kg_answer_header =
     [35, 35, 32, 20851, 20110, 24744, 30340, 38382, 39064, 10, 10, 26681, 25454, 21307, 30103,
       30693, 35782, 24211, 30340, 20449, 24687, 65292, 20026, 24744, 25552, 20379, 20197, 19979,
       21442, 32771, 65306, 10, 10]"

definition kg_answer_reminder :: ustr where
  "kg_answer_reminder =
     [9888, 65039, 32, 42, 42, 37325, 35201, 25552, 31034, 42, 42, 65306, 20197, 19978, 20449,
       24687, 20165, 20379, 21442, 32771, 65292, 19981, 33021, 26367, 20195, 19987, 19994, 21307,
       29983, 30340, 35786, 26029, 21644, 27835, 30103, 24314, 35758, 12290, 22914, 26377, 36523,
       20307, 19981, 36866, 65292, 35831, 21450, 26102, 23601, 21307, 12290]"

text \<open>The fixed answers of the topic handlers (lines 442-591), as the source has them.\<close>

definition headache_response :: ustr where
  "headache_response =
     [35, 35, 32, 22836, 30171, 30340, 21487, 33021, 21407, 22240, 20998, 26512, 10, 10, 26681,
       25454, 24744, 25551, 36848, 30340, 30151, 29366, 65292, 22836, 30171, 21487, 33021, 30001,
       20197, 19979, 20960, 31181, 24120, 35265, 21407, 22240, 24341, 36215, 65306, 10, 10, 35,
       35, 35, 32, 24120, 35265, 21407, 22240, 10, 10, 49, 46, 32, 42, 42, 20559, 22836, 30171,
       42, 42, 32, 91, 26469, 28304, 58, 32, 20013, 21326, 31070, 32463, 31185, 26434, 24535, 44,
       32, 80, 77, 73, 68, 58, 51, 52, 53, 54, 55, 56, 57, 48, 93, 10, 32, 32, 32, 45, 32, 34920,
       29616, 20026, 21453, 22797, 21457, 20316, 30340, 20013, 37325, 24230, 25615, 21160, 24615,
       22836, 30171, 10, 32, 32, 32, 45, 32, 24120, 20276, 26377, 24694, 24515, 12289, 21589,
       21520, 12289, 30031, 20809, 21644, 30031, 22768, 10, 32, 32, 32, 45, 32, 21457, 20316,
       36890, 24120, 25345, 32493, 52, 45, 55, 50, 23567, 26102, 10, 10, 50, 46, 32, 42, 42,
       32039, 24352, 24615, 22836, 30171, 42, 42, 32, 91, 26469, 28304, 58, 32, 72, 101, 97, 100,
       97, 99, 104, 101, 44, 32, 80, 77, 73, 68, 58, 51, 52, 53, 54, 55, 56, 57, 49, 93, 10, 32,
       32, 32, 45, 32, 26368, 24120, 35265, 30340, 22836, 30171, 31867, 22411, 65292, 32456,
       29983, 24739, 30149, 29575, 36798, 55, 56, 37, 10, 32, 32, 32, 45, 32, 34920, 29616, 20026,
       21452, 20391, 21387, 36843, 24615, 25110, 32039, 31629, 26679, 22836, 30171, 10, 32, 32,
       32, 45, 32, 31243, 24230, 36731, 33267, 20013, 24230, 65292, 19981, 22240, 26085, 24120,
       27963, 21160, 21152, 37325, 10, 10, 51, 46, 32, 42, 42, 19978, 21628, 21560, 36947, 24863,
       26579, 65288, 24863, 20882, 47, 27969, 24863, 65289, 42, 42, 10, 32, 32, 32, 45, 32, 23588,
       20854, 22312, 20276, 26377, 21457, 28909, 12289, 21683, 22013, 12289, 27969, 28053, 26102,
       38656, 32771, 34385, 10, 32, 32, 32, 45, 32, 22836, 30171, 36890, 24120, 20026, 20840,
       22836, 37096, 38045, 30171, 10, 10, 35, 35, 35, 32, 9888, 65039, 32, 38656, 35201, 31435,
       21363, 23601, 21307, 30340, 21361, 38505, 20449, 21495, 32, 91, 26469, 28304, 58, 32, 78,
       73, 67, 69, 20020, 24202, 25351, 21335, 93, 10, 10, 22914, 20986, 29616, 20197, 19979,
       24773, 20917, 65292, 35831, 42, 42, 31435, 21363, 42, 42, 21069, 24448, 21307, 38498,
       23601, 35786, 65306, 10, 45, 32, 42, 42, 38647, 20987, 26679, 22836, 30171, 42, 42, 65306,
       25968, 31186, 20869, 36798, 21040, 39640, 23792, 30340, 21095, 28872, 22836, 30171, 10, 45,
       32, 42, 42, 20276, 21457, 28909, 21644, 39048, 37096, 20725, 30828, 42, 42, 65306, 21487,
       33021, 25552, 31034, 33041, 33180, 28814, 10, 45, 32, 42, 42, 24847, 35782, 25913, 21464,
       25110, 31070, 32463, 21151, 33021, 32570, 25439, 42, 42, 10, 45, 32, 42, 42, 22836, 30171,
       36827, 34892, 24615, 21152, 37325, 42, 42, 10, 45, 32, 42, 42, 53, 48, 23681, 20197, 21518,
       26032, 21457, 22836, 30171, 42, 42, 10, 45, 32, 42, 42, 20276, 35270, 21147, 25913, 21464,
       25110, 30524, 30171, 42, 42, 10, 10, 35, 35, 35, 32, 24314, 35758, 10, 10, 49, 46, 32,
       20445, 25345, 20805, 36275, 20241, 24687, 65292, 36991, 20813, 36807, 24230, 21171, 32047,
       10, 50, 46, 32, 21487, 32771, 34385, 23545, 30151, 26381, 29992, 23545, 20057, 37232,
       27688, 22522, 37210, 65288, 49, 48, 48, 48, 109, 103, 65289, 25110, 24067, 27931, 33452,
       65288, 52, 48, 48, 45, 54, 48, 48, 109, 103, 65289, 32531, 35299, 30151, 29366, 10, 51, 46,
       32, 22914, 22836, 30171, 25345, 32493, 36229, 36807, 51, 22825, 25110, 39057, 32321, 21457,
       20316, 65292, 24314, 35758, 23601, 21307, 36827, 19968, 27493, 35780, 20272, 10, 52, 46,
       32, 35760, 24405, 22836, 30171, 26085, 35760, 65288, 21457, 20316, 26102, 38388, 12289,
       25345, 32493, 26102, 38388, 12289, 35825, 22240, 12289, 20276, 38543, 30151, 29366, 65289,
       26377, 21161, 20110, 35786, 26029]"

definition fever_response :: ustr where
  "fever_response =
     [35, 35, 32, 21457, 28909, 30340, 35780, 20272, 19982, 24314, 35758, 10, 10, 35, 35, 35, 32,
       21457, 28909, 23450, 20041, 10, 21457, 28909, 23450, 20041, 20026, 26680, 24515, 20307,
       28201, 8805, 51, 56, 176, 67, 65288, 33099, 28201, 8805, 51, 55, 46, 51, 176, 67, 21487,
       35270, 20026, 20302, 28909, 65289, 12290, 91, 26469, 28304, 58, 32, 20013, 21326, 20869,
       31185, 26434, 24535, 44, 32, 80, 77, 73, 68, 58, 51, 52, 53, 54, 55, 56, 57, 51, 93, 10,
       10, 35, 35, 35, 32, 24120, 35265, 21407, 22240, 10, 49, 46, 32, 42, 42, 24863, 26579,
       24615, 30142, 30149, 42, 42, 65288, 26368, 24120, 35265, 65289, 10, 32, 32, 32, 45, 32,
       19978, 21628, 21560, 36947, 24863, 26579, 12289, 27969, 24863, 10, 32, 32, 32, 45, 32,
       32954, 28814, 12289, 27852, 23615, 36947, 24863, 26579, 31561, 10, 10, 50, 46, 32, 42, 42,
       38750, 24863, 26579, 24615, 21407, 22240, 42, 42, 10, 32, 32, 32, 45, 32, 33258, 36523,
       20813, 30123, 30142, 30149, 10, 32, 32, 32, 45, 32, 33647, 29289, 28909, 10, 10, 35, 35,
       35, 32, 9888, 65039, 32, 38656, 35201, 23601, 21307, 30340, 24773, 20917, 10, 45, 32,
       20307, 28201, 8805, 51, 57, 176, 67, 25345, 32493, 50, 52, 23567, 26102, 20197, 19978, 10,
       45, 32, 20276, 26377, 21095, 28872, 22836, 30171, 21644, 39048, 37096, 20725, 30828, 65288,
       35686, 24789, 33041, 33180, 28814, 65289, 10, 45, 32, 20276, 26377, 24847, 35782, 25913,
       21464, 10, 45, 32, 20276, 26377, 30382, 30137, 10, 45, 32, 20799, 31461, 12289, 32769,
       24180, 20154, 25110, 20813, 30123, 21147, 20302, 19979, 32773, 10, 10, 35, 35, 35, 32,
       23545, 30151, 22788, 29702, 24314, 35758, 10, 49, 46, 32, 22810, 39278, 27700, 65292,
       20445, 25345, 20241, 24687, 10, 50, 46, 32, 21487, 26381, 29992, 23545, 20057, 37232,
       27688, 22522, 37210, 25110, 24067, 27931, 33452, 36864, 28909, 10, 51, 46, 32, 29289,
       29702, 38477, 28201, 65288, 28201, 27700, 25830, 28020, 65289, 10, 52, 46, 32, 22914,
       25345, 32493, 19981, 36864, 25110, 20276, 26377, 20854, 20182, 30151, 29366, 65292, 35831,
       21450, 26102, 23601, 21307]"

definition drug_response :: ustr where
  "drug_response =
     [35, 35, 32, 33647, 29289, 20449, 24687, 10, 10, 35, 35, 35, 32, 24120, 29992, 27490, 30171,
       36864, 28909, 33647, 29289, 32, 91, 26469, 28304, 58, 32, 68, 114, 117, 103, 66, 97, 110,
       107, 44, 32, 67, 111, 99, 104, 114, 97, 110, 101, 93, 10, 10, 49, 46, 32, 42, 42, 23545,
       20057, 37232, 27688, 22522, 37210, 65288, 25169, 28909, 24687, 30171, 65289, 42, 42, 10,
       32, 32, 32, 45, 32, 29992, 27861, 65306, 25104, 20154, 27599, 27425, 53, 48, 48, 45, 49,
       48, 48, 48, 109, 103, 65292, 27599, 52, 45, 54, 23567, 26102, 19968, 27425, 10, 32, 32, 32,
       45, 32, 27599, 26085, 26368, 22823, 21058, 37327, 65306, 52, 48, 48, 48, 109, 103, 10, 32,
       32, 32, 45, 32, 36866, 29992, 20110, 36731, 33267, 20013, 24230, 30140, 30171, 21644,
       36864, 28909, 10, 32, 32, 32, 45, 32, 27880, 24847, 65306, 36991, 20813, 36807, 37327,
       65292, 26377, 32925, 25439, 23475, 39118, 38505, 10, 10, 50, 46, 32, 42, 42, 24067, 27931,
       33452, 42, 42, 32, 91, 26469, 28304, 58, 32, 68, 114, 117, 103, 66, 97, 110, 107, 32, 68,
       66, 48, 49, 48, 53, 48, 93, 10, 32, 32, 32, 45, 32, 29992, 27861, 65306, 25104, 20154,
       27599, 27425, 50, 48, 48, 45, 52, 48, 48, 109, 103, 65292, 27599, 52, 45, 54, 23567, 26102,
       19968, 27425, 10, 32, 32, 32, 45, 32, 27599, 26085, 26368, 22823, 21058, 37327, 65306, 49,
       50, 48, 48, 109, 103, 65288, 38750, 22788, 26041, 65289, 10, 32, 32, 32, 45, 32, 21516,
       26102, 20855, 26377, 27490, 30171, 12289, 36864, 28909, 12289, 25239, 28814, 20316, 29992,
       10, 32, 32, 32, 45, 32, 31105, 24524, 65306, 27963, 21160, 24615, 28040, 21270, 36947,
       28291, 30113, 12289, 20005, 37325, 24515, 34928, 10, 10, 35, 35, 35, 32, 9888, 65039, 32,
       29992, 33647, 27880, 24847, 20107, 39033, 10, 45, 32, 27599, 26376, 20351, 29992, 27490,
       30171, 33647, 19981, 23452, 36229, 36807, 49, 48, 22825, 65292, 20197, 38450, 33647, 29289,
       36807, 24230, 20351, 29992, 24615, 22836, 30171, 10, 45, 32, 26377, 32963, 30149, 21490,
       32773, 24910, 29992, 78, 83, 65, 73, 68, 115, 31867, 33647, 29289, 10, 45, 32, 32925,
       32958, 21151, 33021, 19981, 20840, 32773, 35831, 36981, 21307, 22065, 35843, 25972, 21058,
       37327, 10, 45, 32, 22914, 38656, 38271, 26399, 29992, 33647, 65292, 35831, 21672, 35810,
       21307, 29983]"

definition diabetes_response :: ustr where
  "diabetes_response =
     [35, 35, 32, 31958, 23615, 30149, 30456, 20851, 20449, 24687, 32, 91, 26469, 28304, 58, 32,
       20013, 21326, 31958, 23615, 30149, 26434, 24535, 32, 50, 48, 50, 52, 24180, 25351, 21335,
       93, 10, 10, 35, 35, 35, 32, 50, 22411, 31958, 23615, 30149, 31649, 29702, 35201, 28857, 10,
       10, 42, 42, 25511, 21046, 30446, 26631, 42, 42, 65306, 10, 45, 32, 72, 98, 65, 49, 99, 32,
       60, 32, 55, 37, 65288, 21487, 26681, 25454, 20010, 20307, 24773, 20917, 35843, 25972,
       65289, 10, 45, 32, 31354, 33145, 34880, 31958, 65306, 52, 46, 52, 45, 55, 46, 48, 32, 109,
       109, 111, 108, 47, 76, 10, 45, 32, 39184, 21518, 50, 23567, 26102, 34880, 31958, 65306, 60,
       32, 49, 48, 46, 48, 32, 109, 109, 111, 108, 47, 76, 10, 10, 42, 42, 19968, 32447, 29992,
       33647, 42, 42, 65306, 10, 45, 32, 20108, 30002, 21452, 32973, 26159, 50, 22411, 31958,
       23615, 30149, 39318, 36873, 33647, 29289, 10, 45, 32, 26080, 31105, 24524, 30151, 24739,
       32773, 24212, 20174, 35786, 26029, 26102, 24320, 22987, 20351, 29992, 10, 10, 42, 42,
       29983, 27963, 26041, 24335, 24178, 39044, 42, 42, 65306, 10, 49, 46, 32, 39278, 39135,
       25511, 21046, 65306, 25511, 21046, 24635, 28909, 37327, 65292, 22343, 34913, 33829, 20859,
       10, 50, 46, 32, 35268, 24459, 36816, 21160, 65306, 27599, 21608, 33267, 23569, 49, 53, 48,
       20998, 38047, 20013, 31561, 24378, 24230, 36816, 21160, 10, 51, 46, 32, 25106, 28895,
       38480, 37202, 10, 52, 46, 32, 25511, 21046, 20307, 37325, 10, 10, 42, 42, 23450, 26399,
       30417, 27979, 42, 42, 65306, 10, 45, 32, 34880, 31958, 30417, 27979, 10, 45, 32, 27599, 51,
       45, 54, 20010, 26376, 26816, 27979, 72, 98, 65, 49, 99, 10, 45, 32, 27599, 24180, 30524,
       24213, 26816, 26597, 10, 45, 32, 27599, 24180, 32958, 21151, 33021, 26816, 26597, 10, 45,
       32, 23450, 26399, 36275, 37096, 26816, 26597, 10, 10, 9888, 65039, 32, 31958, 23615, 30149,
       31649, 29702, 38656, 35201, 20010, 20307, 21270, 26041, 26696, 65292, 35831, 36981, 21307,
       22065, 27835, 30103, 12290]"

definition hypertension_response :: ustr where
  "hypertension_response =
     [35, 35, 32, 39640, 34880, 21387, 30456, 20851, 20449, 24687, 32, 91, 26469, 28304, 58, 32,
       20013, 22269, 39640, 34880, 21387, 38450, 27835, 25351, 21335, 32, 50, 48, 50, 51, 93, 10,
       10, 35, 35, 35, 32, 35786, 26029, 26631, 20934, 10, 38750, 21516, 26085, 51, 27425, 34880,
       21387, 27979, 37327, 8805, 49, 52, 48, 47, 57, 48, 109, 109, 72, 103, 21363, 21487, 35786,
       26029, 39640, 34880, 21387, 12290, 10, 10, 35, 35, 35, 32, 27835, 30103, 30446, 26631, 10,
       45, 32, 19968, 33324, 24739, 32773, 65306, 60, 32, 49, 52, 48, 47, 57, 48, 32, 109, 109,
       72, 103, 10, 45, 32, 39640, 21361, 24739, 32773, 65306, 60, 32, 49, 51, 48, 47, 56, 48, 32,
       109, 109, 72, 103, 10, 10, 35, 35, 35, 32, 19968, 32447, 38477, 21387, 33647, 29289, 10,
       49, 46, 32, 65, 67, 69, 73, 47, 65, 82, 66, 65288, 26222, 21033, 31867, 47, 27801, 22374,
       31867, 65289, 10, 50, 46, 32, 67, 67, 66, 65288, 22320, 24179, 31867, 65289, 10, 51, 46,
       32, 21033, 23615, 21058, 10, 52, 46, 32, 946, 21463, 20307, 38459, 28382, 21058, 10, 10,
       35, 35, 35, 32, 29983, 27963, 26041, 24335, 25913, 21464, 10, 49, 46, 32, 42, 42, 38480,
       30416, 42, 42, 65306, 27599, 26085, 25668, 30416, 60, 54, 103, 10, 50, 46, 32, 42, 42,
       20943, 37325, 42, 42, 65306, 66, 77, 73, 25511, 21046, 22312, 50, 52, 20197, 19979, 10, 51,
       46, 32, 42, 42, 25106, 28895, 42, 42, 65306, 23436, 20840, 25106, 28895, 10, 52, 46, 32,
       42, 42, 38480, 37202, 42, 42, 65306, 30007, 24615, 60, 50, 53, 103, 47, 22825, 65292,
       22899, 24615, 60, 49, 53, 103, 47, 22825, 10, 53, 46, 32, 42, 42, 36816, 21160, 42, 42,
       65306, 27599, 21608, 53, 45, 55, 22825, 65292, 27599, 27425, 51, 48, 20998, 38047, 26377,
       27687, 36816, 21160, 10, 10, 35, 35, 35, 32, 9888, 65039, 32, 27880, 24847, 20107, 39033,
       10, 45, 32, 39640, 34880, 21387, 38656, 35201, 38271, 26399, 31649, 29702, 65292, 19981,
       21487, 33258, 34892, 20572, 33647, 10, 45, 32, 34880, 21387, 27874, 21160, 22823, 25110,
       25511, 21046, 19981, 20339, 35831, 21450, 26102, 23601, 21307, 10, 45, 32, 23450, 26399,
       30417, 27979, 34880, 21387, 24182, 35760, 24405]"

text \<open>\<open>_generate_default_response\<close> (lines 593-613): the text before and after the list
  of references, and the list itself, of at most three items numbered from 1.\<close>

definition default_response_head :: ustr where
  "default_response_head =
     [35, 35, 32, 20851, 20110, 24744, 30340, 38382, 39064, 10, 10, 24863, 35874, 24744, 30340,
       21672, 35810, 12290, 26681, 25454, 24744, 30340, 38382, 39064, 65292, 25105, 26816, 32034,
       20102, 30456, 20851, 30340, 21307, 23398, 36164, 26009, 12290, 10, 10, 30001, 20110, 38382,
       39064, 30340, 20855, 20307, 24615, 65292, 24314, 35758, 24744, 65306, 10, 10, 49, 46, 32,
       42, 42, 35814, 32454, 25551, 36848, 30151, 29366, 42, 42, 65306, 21253, 25324, 25345,
       32493, 26102, 38388, 12289, 20005, 37325, 31243, 24230, 12289, 20276, 38543, 30151, 29366,
       31561, 10, 50, 46, 32, 42, 42, 21672, 35810, 19987, 19994, 21307, 29983, 42, 42, 65306,
       33719, 21462, 38024, 23545, 24615, 30340, 35786, 26029, 21644, 27835, 30103, 24314, 35758,
       10, 51, 46, 32, 42, 42, 19981, 35201, 33258, 34892, 29992, 33647, 42, 42, 65306, 29305,
       21035, 26159, 22788, 26041, 33647, 29289, 10, 10]"

definition default_response_tail :: ustr where
  "default_response_tail =
     [10, 10, 9888, 65039, 32, 26412, 31995, 32479, 20165, 20379, 20449, 24687, 21442, 32771,
       65292, 19981, 33021, 26367, 20195, 19987, 19994, 21307, 29983, 30340, 35786, 26029, 21644,
       27835, 30103, 24314, 35758, 12290, 22914, 26377, 19981, 36866, 65292, 35831, 21450, 26102,
       23601, 21307, 12290]"

text \<open>\<open>ev.section or '...'\<close>: the section, or "medical literature" when it is missing
  or empty.\<close>

definition section_or_default :: "evidence \<Rightarrow> ustr" where
  "section_or_default ev =
     (case ev_section ev of None \<Rightarrow> [21307, 23398, 25991, 29486] | Some s \<Rightarrow>
       if s = [] then [21307, 23398, 25991, 29486] else s)"

text \<open>One item; \<open>i\<close> is 1, 2 or 3, so its decimal form is one digit.\<close>

definition evidence_summary_item :: "nat \<Rightarrow> evidence \<Rightarrow> ustr" where
  "evidence_summary_item i ev =
     [48 + i] @ [46, 32] @ section_or_default ev @ [32, 91, 26469, 28304, 58, 32] @ source ev @
       [93, 10]"

fun evidence_summary_items :: "nat \<Rightarrow> evidence list \<Rightarrow> ustr" where
  "evidence_summary_items i [] = []"
| "evidence_summary_items i (ev # evs) =
     evidence_summary_item i ev @ evidence_summary_items (Suc i) evs"

definition generate_default_response :: "ustr \<Rightarrow> evidence list \<Rightarrow> ustr" where
  "generate_default_response query evs =
     (let evidence_summary =
            (if evs \<noteq> [] then [10, 10, 35, 35, 35, 32, 30456, 20851, 21442, 32771, 36164,
              26009, 10] @ evidence_summary_items 1 (take 3 evs)
             else [])
      in default_response_head @ evidence_summary @ default_response_tail)"

text \<open>\<open>any(term in query for term in terms)\<close>\<close>

definition mentions_any :: "ustr list \<Rightarrow> ustr \<Rightarrow> bool" where
  "mentions_any terms query = list_ex (\<lambda>term. contains term query) terms"

text \<open>\<open>_generate_mock_response\<close> (lines 393-433).\<close>

definition generate_mock_response ::
    "ustr \<Rightarrow> ustr list \<Rightarrow> evidence list \<Rightarrow> kg_path list \<Rightarrow> ustr \<Rightarrow> ustr" where
  "generate_mock_response query entities evs paths kg_context =
     (if kg_context \<noteq> [] then
        kg_answer_header @ kg_context @ [10] @ fallback_notice @ kg_answer_reminder
      else if mentions_any [[22836, 30171], [22836, 30140], [20559, 22836, 30171]] query then
        headache_response @ fallback_notice
      else if mentions_any [[21457, 28909], [21457, 28903], [20307, 28201]] query then
        fever_response @ fallback_notice
      else if mentions_any [[33647], [29992, 33647], [21507, 20160, 20040, 33647], [24067, 27931,
        33452], [23545, 20057, 37232, 27688, 22522, 37210]] query
        then drug_response @ fallback_notice
      else if mentions_any [[31958, 23615, 30149], [34880, 31958]] query then diabetes_response @
        fallback_notice
      else if mentions_any [[39640, 34880, 21387], [34880, 21387]] query then
        hypertension_response @ fallback_notice
      else generate_default_response query evs @ fallback_notice)"

text \<open>\<open>_generate_fallback_response\<close> (lines 376-391): "the knowledge base has no details
  about ...", the entities joined by a comma, or "what you asked about" when there are
  none.\<close>

definition fallback_response_head :: ustr where
  "fallback_response_head =
     [35, 35, 32, 20851, 20110, 24744, 30340, 38382, 39064, 10, 10, 24863, 35874, 24744, 30340,
       21672, 35810, 12290, 10, 10, 30446, 21069, 30693, 35782, 24211, 20013, 26242, 26080, 20851,
       20110, 34]"

definition fallback_response_tail :: ustr where
  "fallback_response_tail =
     [34, 30340, 35814, 32454, 20449, 24687, 12290, 10, 10, 42, 42, 24314, 35758, 42, 42, 65306,
       10, 49, 46, 32, 23581, 35797, 20351, 29992, 26356, 20855, 20307, 30340, 21307, 23398,
       26415, 35821, 36827, 34892, 26597, 35810, 10, 50, 46, 32, 22914, 26377, 36523, 20307,
       19981, 36866, 65292, 35831, 21450, 26102, 21069, 24448, 21307, 38498, 23601, 35786, 10, 51,
       46, 32, 21487, 20197, 21672, 35810, 19987, 19994, 21307, 29983, 33719, 21462, 20934, 30830,
       30340, 35786, 26029, 21644, 27835, 30103, 24314, 35758, 10, 10, 45, 45, 45, 10, 128218, 32,
       42, 42, 25552, 31034, 42, 42, 65306, 26412, 22238, 31572, 22522, 20110, 21307, 30103,
       30693, 35782, 22270, 35889, 29983, 25104, 65292, 26410, 20351, 29992, 65, 73, 22823, 27169,
       22411, 12290, 10, 9888, 65039, 32, 42, 42, 37325, 35201, 25552, 31034, 42, 42, 65306,
       26412, 31995, 32479, 20165, 20379, 21307, 30103, 20449, 24687, 21442, 32771, 65292, 19981,
       33021, 26367, 20195, 19987, 19994, 21307, 29983, 30340, 35786, 26029, 21644, 27835, 30103,
       24314, 35758, 12290]"

definition generate_fallback_response :: "ustr \<Rightarrow> ustr list \<Rightarrow> ustr" where
  "generate_fallback_response query entities =
     fallback_response_head
     @ (if entities \<noteq> [] then join [44, 32] entities else [24744, 25152, 35810, 38382,
       20869, 23481])
     @ fallback_response_tail"


section \<open>The question-answering pipeline\<close>

text \<open>\<open>QueryRequest\<close> (app/models/query.py lines 68-78), with the fields the service
  reads.\<close>

record query_request =
  query :: ustr
  history :: "chat_message list option"
  user_id :: "ustr option"
  max_answers :: nat
  include_kg_paths :: bool
  include_evidence :: bool


datatype answer_source = KNOWLEDGE_GRAPH | LLM_ONLY | MIXED | TEMPLATE

datatype llm_provider = Mock | SiliconFlow | Gemini | OpenAI

text \<open>
  How the call of a hosted provider ends. In \<open>_process_query_internal\<close> the call is
  wrapped in \<open>asyncio.wait_for\<close> with \<open>LLM_TIMEOUT\<close>: it returns the text of the
  completion, runs into the timeout, or raises another exception. In
  \<open>_process_query_stream_internal\<close> the provider delivers fragments; the stream ends
  normally, or an exception is raised after the fragments delivered so far (none, when the
  call itself fails). The \<open>content\<close> of a completion is optional in the client:
  \<open>Success None\<close> is a completion without text, \<open>Success (Some t)\<close> one with
  the text \<open>t\<close>, possibly empty. A fragment of a stream is used only when its content
  is true, so a fragment without content passes like an empty one.
\<close>

datatype completion = Success "ustr option" | Timeout | TransportError

datatype stream_outcome = StreamCompleted "ustr list" | StreamFailed "ustr list"

text \<open>A row that \<open>memory_service.search_memory\<close> returns: the content, and the score
  rounded to two places as Python prints it inside a formatted string.\<close>

record memory_item =
  mem_content :: ustr
  mem_score_text :: ustr

text \<open>
  The collaborators and the configuration of one run: the graph store; the answer of the
  vector store's \<open>search_documents(query, keywords, limit)\<close>; the answer of
  \<open>search_memory(query, user_id, top_k=5)\<close>, \<open>None\<close> when it raises; the provider
  \<open>_llm_provider\<close> that \<open>initialize\<close> chose and \<open>settings.siliconflow_model\<close>; how
  the provider's call ends in either mode; the values read from the system when the
  run starts and ends (the identifier drawn for the query, the elapsed milliseconds); and
  the floating-point arithmetic of the interpreter.
\<close>

text \<open>
  A Python float is modelled by the real number it holds, and a decimal literal of the
  source (\<open>0.7\<close>, \<open>0.9\<close>) stands for the float it denotes. What the interpreter's
  binary arithmetic returns is not computed here but taken as given: \<open>float_sum\<close> is
  \<open>sum\<close> on a list of floats, \<open>float_div s n\<close> is \<open>s / n\<close> for a float and a
  length, \<open>float_round2 x\<close> is \<open>round(x, 2)\<close>.
\<close>

record float_arith =
  float_sum :: "real list \<Rightarrow> real"
  float_div :: "real \<Rightarrow> nat \<Rightarrow> real"
  float_round2 :: "real \<Rightarrow> real"

text \<open>
  What the statements below need of the arithmetic, and binary floating point gives: the
  quotient of the sum of floats between 0 and 1 by their number lies between 0 and 1;
  rounding to two places keeps a float between 0 and 1 there; and \<open>round(0.7, 2)\<close> is
  \<open>0.7\<close>.
\<close>

definition float_arith_ok :: "float_arith \<Rightarrow> bool" where
  "float_arith_ok a \<longleftrightarrow>
     (\<forall>cs. cs \<noteq> [] \<and> list_all (\<lambda>c. 0 \<le> c \<and> c \<le> 1) cs \<longrightarrow>
        0 \<le> float_div a (float_sum a cs) (length cs) \<and>
        float_div a (float_sum a cs) (length cs) \<le> 1) \<and>
     (\<forall>x. 0 \<le> x \<and> x \<le> 1 \<longrightarrow> 0 \<le> float_round2 a x \<and> float_round2 a x \<le> 1) \<and>
     float_round2 a 0.7 = 0.7"

record services =
  kg_service :: kg_store
  search_documents :: "ustr \<Rightarrow> ustr list \<Rightarrow> nat \<Rightarrow> evidence list"
  search_memory :: "ustr \<Rightarrow> ustr \<Rightarrow> memory_item list option"
  provider :: llm_provider
  siliconflow_model :: ustr
  completion_result :: completion
  stream_result :: stream_outcome
  fresh_query_id :: ustr
  elapsed_ms :: int
  arith :: float_arith

record query_response =
  query_id :: ustr
  answer :: ustr
  answer_src :: answer_source
  resp_evidence :: "evidence list"
  resp_kg_paths :: "kg_path list"
  confidence_score :: real
  warnings :: "ustr list"
  disclaimer :: ustr
  processing_time_ms :: int
  model_used :: ustr

datatype error = ValidationError

text \<open>Building a \<open>QueryResponse\<close> checks the declared bounds of \<open>confidence_score\<close>
  (\<open>ge=0, le=1\<close>) and raises when they do not hold. It also checks that the answer is
  a string; that check is made in \<open>build_response\<close> below, where the answer may still
  be \<open>None\<close>.\<close>

definition QueryResponse :: "query_response \<Rightarrow> error + query_response" where
  "QueryResponse r =
     (if 0 \<le> confidence_score r \<and> confidence_score r \<le> 1 then Inr r
      else Inl ValidationError)"

text \<open>Steps 2 and 3 (lines 636-653 and 941-958): the graph paths of the entities, and the
  evidence for the entities of the current question alone.\<close>

definition retrieve_kg_paths :: "services \<Rightarrow> query_request \<Rightarrow> ustr list \<Rightarrow> kg_path list" where
  "retrieve_kg_paths env req entities =
     (if include_kg_paths req \<and> entities \<noteq> [] then find_paths_for_query (kg_service env) entities
      else [])"

definition retrieve_evidence :: "services \<Rightarrow> query_request \<Rightarrow> evidence list" where
  "retrieve_evidence env req =
     (if include_evidence req
      then search_documents env (query req)
             (extract_entities_from_query_only (kg_service env) (query req)) (max_answers req + 2)
      else [])"

text \<open>Lines 659-669: the memories of the user; none without a user, or when the search
  raises.\<close>

definition memory_results :: "services \<Rightarrow> query_request \<Rightarrow> memory_item list" where
  "memory_results env req =
     (case user_id req of
        None \<Rightarrow> []
      | Some u \<Rightarrow>
          if u = [] then []
          else (case search_memory env (query req) u of None \<Rightarrow> [] | Some ms \<Rightarrow> ms))"

text \<open>Lines 663-667: the text that is put in front of the graph context.\<close>

definition memory_text :: "memory_item list \<Rightarrow> ustr" where
  "memory_text ms =
     (if ms \<noteq> [] then
        [29992, 25143, 21382, 21490, 35760, 24518, 65306, 10]
        @ concat (map (\<lambda>m. [45, 32, 40] @ mem_score_text m @ [41, 32] @ mem_content m @
          [10]) ms)
        @ [10]
      else [])"

text \<open>Lines 677-683 and 969-975: a context made of the nodes of the first three paths.\<close>

definition node_line :: "kg_node \<Rightarrow> ustr" where
  "node_line node =
     [45, 32] @ node_type node @ [58, 32] @ label node
     @ (case map_of (properties node) [100, 101, 115, 99, 114, 105, 112, 116, 105, 111, 110] of
          None \<Rightarrow> []
        | Some d \<Rightarrow> if d \<noteq> [] then [32, 45, 32] @ d else [])
     @ [10]"

definition paths_context :: "kg_path list \<Rightarrow> ustr" where
  "paths_context paths =
     [30456, 20851, 21307, 23398, 30693, 35782, 65306, 10] @ concat (map (\<lambda>p. concat (map
       node_line (nodes p))) (take 3 paths))"

text \<open>Step 4 of \<open>_process_query_internal\<close> (lines 656-683).\<close>

definition sync_kg_context :: "services \<Rightarrow> query_request \<Rightarrow> ustr list \<Rightarrow> kg_path list \<Rightarrow> ustr" where
  "sync_kg_context env req entities paths =
     (let kg_context = memory_text (memory_results env req);
          kg_context = kg_context
            @ (if entities \<noteq> [] \<and> is_connected (kg_service env)
               then get_kg_context_for_query (kg_service env) entities else [])
      in if kg_context = [] \<and> paths \<noteq> [] then paths_context paths else kg_context)"

text \<open>Step 4 of \<open>_process_query_stream_internal\<close> (lines 964-975).\<close>

definition stream_kg_context :: "services \<Rightarrow> query_request \<Rightarrow> ustr list \<Rightarrow> kg_path list \<Rightarrow> ustr" where
  "stream_kg_context env req entities paths =
     (let kg_context =
            (if entities \<noteq> [] \<and> is_connected (kg_service env)
             then get_kg_context_for_query (kg_service env) entities else [])
      in if kg_context = [] \<and> paths \<noteq> [] then paths_context paths else kg_context)"

text \<open>Lines 699 and 984, \<open>bool(kg_context or kg_paths)\<close>: whether the knowledge graph has
  data for the question.\<close>

definition has_kg_data :: "ustr \<Rightarrow> kg_path list \<Rightarrow> bool" where
  "has_kg_data kg_context kg_paths \<longleftrightarrow> kg_context \<noteq> [] \<or> kg_paths \<noteq> []"

text \<open>Lines 709-722 and 994-1007: the notice put after an answer given without graph data
  ("the knowledge graph has nothing on this; the answer was generated by the AI model
  ..."), with the name of the configured model.\<close>

definition current_model_name :: "services \<Rightarrow> ustr" where
  "current_model_name env =
     (case provider env of
        Mock \<Rightarrow> [27169, 26495, 22238, 22797]
      | Gemini \<Rightarrow> [71, 101, 109, 105, 110, 105]
      | OpenAI \<Rightarrow> [71, 80, 84, 45, 52]
      | SiliconFlow \<Rightarrow> siliconflow_model env)"

definition no_kg_notice_head :: ustr where
  "no_kg_notice_head =
     [10, 10, 45, 45, 45, 10, 129302, 32, 42, 42, 26469, 28304, 35828, 26126, 42, 42, 65306,
       30693, 35782, 22270, 35889, 20013, 26410, 25214, 21040, 30456, 20851, 20449, 24687, 65292,
       26412, 22238, 31572, 30001, 32, 65, 73, 32, 22823, 27169, 22411, 65288]"

definition no_kg_notice_tail :: ustr where
  "no_kg_notice_tail =
     [65289, 22522, 20110, 36890, 29992, 21307, 23398, 30693, 35782, 29983, 25104, 12290, 10,
       9888, 65039, 32, 42, 42, 37325, 35201, 25552, 31034, 42, 42, 65306, 65, 73, 32, 29983,
       25104, 20869, 23481, 20165, 20379, 21442, 32771, 65292, 21487, 33021, 23384, 22312, 35823,
       24046, 65292, 35831, 20197, 19987, 19994, 21307, 29983, 35786, 26029, 20026, 20934, 12290,
       22914, 26377, 36523, 20307, 19981, 36866, 65292, 35831, 21450, 26102, 23601, 21307, 12290]"

definition no_kg_notice :: "services \<Rightarrow> ustr" where
  "no_kg_notice env = no_kg_notice_head @ current_model_name env @ no_kg_notice_tail"

text \<open>
  Lines 859-861 and 1161-1163: the mean of the confidences that are not zero (a zero is
  false in the comprehension's filter), or 0.7 when none is left; the sum and the quotient
  are those of the interpreter.
\<close>

definition overall_confidence :: "float_arith \<Rightarrow> evidence list \<Rightarrow> real" where
  "overall_confidence a evs =
     (let confidence_scores = filter (\<lambda>c. c \<noteq> 0) (map confidence evs)
      in if confidence_scores \<noteq> []
         then float_div a (float_sum a confidence_scores) (length confidence_scores)
         else 0.7)"

text \<open>Lines 864-870 and 1166-1172: "no directly relevant literature found", "nothing found
  in the knowledge graph", "the knowledge graph service is not connected".\<close>

definition no_graph_data_warning :: ustr where
  "no_graph_data_warning = [30693, 35782, 22270, 35889, 20013, 26410, 25214, 21040, 30456, 20851,
    20449, 24687]"

definition build_warnings :: "services \<Rightarrow> evidence list \<Rightarrow> bool \<Rightarrow> ustr list" where
  "build_warnings env evs kg_available =
     (if evs = [] then [[26410, 25214, 21040, 30452, 25509, 30456, 20851, 30340, 21307, 23398,
       25991, 29486]] else [])
     @ (if \<not> kg_available then [no_graph_data_warning] else [])
     @ (if \<not> is_connected (kg_service env) then [[30693, 35782, 22270, 35889, 26381, 21153,
       26410, 36830, 25509]] else [])"

text \<open>Lines 873-882 and 1175-1184.\<close>

definition determine_answer_source :: "llm_provider \<Rightarrow> bool \<Rightarrow> answer_source" where
  "determine_answer_source p kg_available =
     (if p = Mock then (if kg_available then KNOWLEDGE_GRAPH else TEMPLATE)
      else (if kg_available then MIXED else LLM_ONLY))"

text \<open>Lines 885 and 1187: the standard disclaimer.\<close>

definition standard_disclaimer :: ustr where
  "standard_disclaimer =
     [9888, 65039, 32, 37325, 35201, 25552, 31034, 65306, 26412, 31995, 32479, 20165, 20379,
       21307, 30103, 20449, 24687, 21442, 32771, 65292, 19981, 33021, 26367, 20195, 19987, 19994,
       21307, 29983, 30340, 35786, 26029, 21644, 27835, 30103, 24314, 35758, 12290, 22914, 26377,
       36523, 20307, 19981, 36866, 65292, 35831, 21450, 26102, 23601, 21307, 12290, 32039, 24613,
       24773, 20917, 35831, 25320, 25171, 24613, 25937, 30005, 35805, 12290]"

definition model_used_name :: "services \<Rightarrow> ustr" where
  "model_used_name env =
     (case provider env of
        Mock \<Rightarrow> [109, 111, 99, 107, 45, 108, 108, 109]
      | Gemini \<Rightarrow> [103, 101, 109, 105, 110, 105, 45, 49, 46, 53, 45, 102, 108, 97, 115,
        104]
      | OpenAI \<Rightarrow> [103, 112, 116, 45, 52]
      | SiliconFlow \<Rightarrow> siliconflow_model env)"

text \<open>Lines 896-908 and 1190-1202: the response, with the evidence cut to
  \<open>max_answers\<close> and the score rounded to two places. The field \<open>answer\<close> is declared
  a string: an answer that is \<open>None\<close> fails the validation of the model.\<close>

definition build_response ::
    "services \<Rightarrow> query_request \<Rightarrow> ustr option \<Rightarrow> evidence list \<Rightarrow> kg_path list \<Rightarrow> bool \<Rightarrow>
     error + query_response" where
  "build_response env req ans evs paths kg_available =
     (case ans of
        None \<Rightarrow> Inl ValidationError
      | Some a \<Rightarrow>
          QueryResponse
            \<lparr>query_id = fresh_query_id env,
             answer = a,
             answer_src = determine_answer_source (provider env) kg_available,
             resp_evidence = take (max_answers req) evs,
             resp_kg_paths = paths,
             confidence_score = float_round2 (arith env) (overall_confidence (arith env) evs),
             warnings = build_warnings env evs kg_available,
             disclaimer = standard_disclaimer,
             processing_time_ms = elapsed_ms env,
             model_used = model_used_name env\<rparr>)"

text \<open>
  Step 5 of \<open>_process_query_internal\<close> (lines 724-853). The three hosted providers have
  the same code: the prompt is built and sent, the text of the completion is the answer,
  with the notice after it when there is no graph data; on the timeout and on any other
  exception the answer is that of \<open>_generate_mock_response\<close>. What the provider answers
  to the prompt is a parameter of the run. When the completion has no text, the answer is
  \<open>None\<close>: without graph data \<open>answer += no_kg_notice\<close> then raises inside the
  \<open>try\<close> and the handler takes the template answer; with graph data nothing touches
  the answer and it stays \<open>None\<close>.
\<close>

definition sync_answer ::
    "services \<Rightarrow> query_request \<Rightarrow> ustr list \<Rightarrow> evidence list \<Rightarrow> kg_path list \<Rightarrow> ustr \<Rightarrow> bool \<Rightarrow>
     ustr option" where
  "sync_answer env req entities evs paths kg_context kg_available =
     (if provider env = Mock then
        (if kg_available
         then Some (generate_mock_response (query req) entities evs paths kg_context)
         else Some (generate_fallback_response (query req) entities))
      else case completion_result env of
        Success (Some out) \<Rightarrow>
          if \<not> kg_available then Some (out @ no_kg_notice env) else Some out
      | Success None \<Rightarrow>
          if \<not> kg_available
          then Some (generate_mock_response (query req) entities evs paths kg_context)
          else None
      | Timeout \<Rightarrow> Some (generate_mock_response (query req) entities evs paths kg_context)
      | TransportError \<Rightarrow>
          Some (generate_mock_response (query req) entities evs paths kg_context))"


text \<open>\<open>process_query\<close> (lines 615-908). The permit of the semaphore is taken around the
  whole run and does not change its result; the memory of the exchange is written by a
  detached task (lines 888-894) and is not part of the response.\<close>

definition process_query :: "services \<Rightarrow> query_request \<Rightarrow> error + query_response" where
  "process_query env req =
     (let entities = extract_entities_from_kg (kg_service env) (query req) (history req);
          kg_paths = retrieve_kg_paths env req entities;
          evs = retrieve_evidence env req;
          kg_context = sync_kg_context env req entities kg_paths;
          kg_available = has_kg_data kg_context kg_paths;
          ans = sync_answer env req entities evs kg_paths kg_context kg_available
      in build_response env req ans evs kg_paths kg_available)"

section \<open>The streaming path\<close>

datatype event =
  Searching
| EvidenceFound nat
| Generating
| Content ustr
| Complete query_response

text \<open>The state of the generation step: the events sent so far and \<open>full_answer\<close>.\<close>

type_synonym emitter_state = "event list \<times> ustr"

text \<open>Lines 1023-1026: the template answer, one character at a time.\<close>

fun emit_chars :: "ustr \<Rightarrow> emitter_state \<Rightarrow> emitter_state" where
  "emit_chars [] st = st"
| "emit_chars (c # cs) (evs, full_answer) =
     emit_chars cs (evs @ [Content [c]], full_answer @ [c])"

text \<open>Lines 1053-1057, 1097-1100 and 1139-1143: the fragments of the provider; an empty
  fragment is passed over.\<close>

fun emit_chunks :: "ustr list \<Rightarrow> emitter_state \<Rightarrow> emitter_state" where
  "emit_chunks [] st = st"
| "emit_chunks (c # cs) (evs, full_answer) =
     (if c \<noteq> [] then emit_chunks cs (evs @ [Content c], full_answer @ c)
      else emit_chunks cs (evs, full_answer))"

text \<open>
  The generation step of \<open>_process_query_stream_internal\<close> (lines 1012-1155), from the
  events sent before it. When the provider's stream raises, the handler sends the answer
  of \<open>_generate_mock_response\<close> as one event and sets \<open>full_answer\<close> to it.
\<close>

definition stream_generate ::
    "services \<Rightarrow> query_request \<Rightarrow> ustr list \<Rightarrow> evidence list \<Rightarrow> kg_path list \<Rightarrow> ustr \<Rightarrow> bool \<Rightarrow>
     event list \<Rightarrow> emitter_state" where
  "stream_generate env req entities evs paths kg_context kg_available sent =
     (if provider env = Mock then
        emit_chars
          (if kg_available then generate_mock_response (query req) entities evs paths kg_context
           else generate_fallback_response (query req) entities)
          (sent, [])
      else case stream_result env of
        StreamCompleted chunks \<Rightarrow>
          (case emit_chunks chunks (sent, []) of
             (sent', full_answer) \<Rightarrow>
               if \<not> kg_available
               then (sent' @ [Content (no_kg_notice env)], full_answer @ no_kg_notice env)
               else (sent', full_answer))
      | StreamFailed chunks \<Rightarrow>
          (case emit_chunks chunks (sent, []) of
             (sent', full_answer) \<Rightarrow>
               let ans = generate_mock_response (query req) entities evs paths kg_context
               in (sent' @ [Content ans], ans)))"

text \<open>What a run of the generator leaves: the events it sent and, when it ended by an
  exception, that exception.\<close>

record stream_run =
  events :: "event list"
  raised :: "error option"

text \<open>\<open>process_query_stream\<close> (lines 910-1214), run to its end: the caller reads every
  event.\<close>

definition process_query_stream :: "services \<Rightarrow> query_request \<Rightarrow> stream_run" where
  "process_query_stream env req =
     (let sent = [Searching];
          entities = extract_entities_from_kg (kg_service env) (query req) (history req);
          kg_paths = retrieve_kg_paths env req entities;
          evs = retrieve_evidence env req;
          sent = sent @ [EvidenceFound (length evs)];
          kg_context = stream_kg_context env req entities kg_paths;
          kg_available = has_kg_data kg_context kg_paths;
          sent = sent @ [Generating]
      in case stream_generate env req entities evs kg_paths kg_context kg_available sent of
           (sent, full_answer) \<Rightarrow>
             (case build_response env req (Some full_answer) evs kg_paths kg_available of
                Inl e \<Rightarrow> \<lparr>events = sent, raised = Some e\<rparr>
              | Inr final_response \<Rightarrow>
                  \<lparr>events = sent @ [Complete final_response], raised = None\<rparr>))"


section \<open>Sample stores and requests\<close>

text \<open>A graph store that is not connected, and a connected one whose database is empty.\<close>

definition offline_kg :: kg_store where
  "offline_kg =
     \<lparr>is_connected = False, disease_hits = (\<lambda>kw limit. []), symptom_hits = (\<lambda>kw limit. []),
      disease_records = (\<lambda>entity. None), symptom_diseases = (\<lambda>entity. [])\<rparr>"

definition empty_kg :: kg_store where
  "empty_kg = offline_kg\<lparr>is_connected := True\<rparr>"

text \<open>A request with the defaults of the model for everything but the question.\<close>

definition plain_request :: "ustr \<Rightarrow> query_request" where
  "plain_request q =
     \<lparr>query = q, history = None, user_id = None, max_answers = 3,
      include_kg_paths = True, include_evidence = True\<rparr>"

text \<open>The greeting "ni hao", which names no medical term.\<close>

definition greeting :: ustr where
  "greeting = [20320, 22909]"

text \<open>
  An arithmetic for the sample runs: sums and quotients without rounding error, and
  rounding to the nearest hundredth, a tie to the even one. Binary floating point returns
  the same numbers wherever the operands and the results are dyadic fractions of few
  digits, as are all confidences of the sample runs (0, 1/4, 1/2, 3/4, 97/128, 1); on the
  literal \<open>0.7\<close> both return the literal.
\<close>

definition round_half_even :: "real \<Rightarrow> int" where
  "round_half_even x =
     (let f = \<lfloor>x\<rfloor>; d = x - of_int f
      in if d < 1 / 2 then f else if 1 / 2 < d then f + 1 else if even f then f else f + 1)"

definition round2 :: "real \<Rightarrow> real" where
  "round2 x = of_int (round_half_even (x * 100)) / 100"

definition exact_arith :: float_arith where
  "exact_arith =
     \<lparr>float_sum = sum_list, float_div = (\<lambda>s n. s / real n), float_round2 = round2\<rparr>"

text \<open>An evidence item of a given confidence.\<close>

definition sample_evidence :: "real \<Rightarrow> evidence" where
  "sample_evidence c =
     \<lparr>source = [68, 114, 117, 103, 66, 97, 110, 107], src_type = DRUGBANK, snippet = [73,
       98, 117, 112, 114, 111, 102, 101, 110],
      pmid = None, doi = None, url = None, confidence = c, publication_date = None,
      ev_section = None\<rparr>"

text \<open>The services around a graph store that is not connected, with a vector store that
  answers every search with the given items and a memory store that holds nothing.\<close>

definition offline_services ::
    "llm_provider \<Rightarrow> completion \<Rightarrow> stream_outcome \<Rightarrow> evidence list \<Rightarrow> services" where
  "offline_services p c s evs =
     \<lparr>kg_service = offline_kg, search_documents = (\<lambda>q keywords limit. take limit evs),
      search_memory = (\<lambda>q u. Some []), provider = p,
      siliconflow_model = [100, 101, 101, 112, 115, 101, 101, 107, 45, 97, 105, 47, 68, 101, 101,
        112, 83, 101, 101, 107, 45, 86, 51],
      completion_result = c, stream_result = s,
      fresh_query_id = [113, 95, 48, 49, 50, 51, 52, 53, 54, 55, 56, 57, 97, 98], elapsed_ms = 12,
        arith = exact_arith\<rparr>"

text \<open>What a reader of the stream sees: the texts of the content events put together, and
  the answer of the response carried by the complete event.\<close>

fun content_text :: "event list \<Rightarrow> ustr" where
  "content_text [] = []"
| "content_text (Content t # es) = t @ content_text es"
| "content_text (e # es) = content_text es"

fun completed_answer :: "event list \<Rightarrow> ustr option" where
  "completed_answer [] = None"
| "completed_answer (Complete r # es) = Some (answer r)"
| "completed_answer (e # es) = completed_answer es"

text \<open>The same services with a memory store that holds one row for every user, and a
  request of a user who is known.\<close>

definition sample_memory :: memory_item where
  "sample_memory = \<lparr>mem_content = [81, 58, 32, 104, 105], mem_score_text = [48, 46, 51,
    53]\<rparr>"

definition remembering_services ::
    "llm_provider \<Rightarrow> completion \<Rightarrow> stream_outcome \<Rightarrow> evidence list \<Rightarrow> services" where
  "remembering_services p c s evs =
     (offline_services p c s evs)\<lparr>search_memory := (\<lambda>q u. Some [sample_memory])\<rparr>"

definition known_user_request :: "ustr \<Rightarrow> query_request" where
  "known_user_request q = (plain_request q)\<lparr>user_id := Some [117, 49]\<rparr>"

text \<open>A disease record with the given free-text fields and no related names, a connected
  graph store that holds it under one name, and the services around a given graph store.\<close>

definition sample_disease :: "ustr \<Rightarrow> ustr \<Rightarrow> ustr \<Rightarrow> ustr \<Rightarrow> disease_info" where
  "sample_disease n d c p =
     \<lparr>name = n, description = d, cause = c, prevent = p, symptoms = [], common_drugs = [],
      recommended_drugs = [], do_eat = [], not_eat = [], checks = [], departments = [],
      cure_ways = [], complications = []\<rparr>"

definition record_kg :: "ustr \<Rightarrow> disease_info \<Rightarrow> kg_store" where
  "record_kg n info =
     empty_kg\<lparr>disease_records := (\<lambda>entity. if entity = n then Some info else None)\<rparr>"

definition graph_services ::
    "kg_store \<Rightarrow> llm_provider \<Rightarrow> completion \<Rightarrow> stream_outcome \<Rightarrow> evidence list \<Rightarrow> services" where
  "graph_services g p c s evs = (offline_services p c s evs)\<lparr>kg_service := g\<rparr>"

text \<open>The term "tou tong" (headache) of the table, and a text of 201 characters.\<close>

definition headache :: ustr where
  "headache = [22836, 30171]"

definition long_text :: ustr where
  "long_text = replicate 201 65"

text \<open>A question that names two terms of the table ("tou tong fa re", headache and
  fever); the colloquial "gan mao" (a cold) and its canonical name of the synonym table
  ("shang hu xi dao gan ran", upper respiratory tract infection); a question made of
  both; and the name of a disease of the database that the search for the canonical name
  finds ("ji xing shang hu xi dao gan ran", the acute form).\<close>

definition headache_fever :: ustr where
  "headache_fever = [22836, 30171, 21457, 28909]"

definition cold :: ustr where
  "cold = [24863, 20882]"

definition urti :: ustr where
  "urti = [19978, 21628, 21560, 36947, 24863, 26579]"

definition urti_cold :: ustr where
  "urti_cold = [19978, 21628, 21560, 36947, 24863, 26579, 24863, 20882]"

definition acute_urti :: ustr where
  "acute_urti = [24613, 24615, 19978, 21628, 21560, 36947, 24863, 26579]"

text \<open>A connected graph store whose disease search answers the canonical name with the
  acute form and finds nothing else, and a history of one greeting by the user.\<close>

definition urti_kg :: kg_store where
  "urti_kg =
     empty_kg\<lparr>disease_hits := (\<lambda>kw limit. if kw = urti then [acute_urti] else [])\<rparr>"

definition greeting_history :: "chat_message list option" where
  "greeting_history = Some [\<lparr>role = role_user, content = greeting\<rparr>]"



section \<open>The graph context in the words of the amended claim\<close>

text \<open>
  A second rendering of the graph context, written from the description of the blocks and
  not from the code, to be compared with \<open>get_kg_context_for_query\<close>. A free-text field
  is cut at \<open>n\<close> characters, with three dots after the cut, when it is longer, and left
  whole otherwise; a line is a label, a text and a line feed, and is missing when the text
  is empty.
\<close>

definition truncate_with_ellipsis :: "nat \<Rightarrow> ustr \<Rightarrow> ustr" where
  "truncate_with_ellipsis n s = (if n < length s then take n s @ [46, 46, 46] else s)"

definition labelled_line :: "ustr \<Rightarrow> ustr \<Rightarrow> ustr" where
  "labelled_line lbl s = (if s = [] then [] else lbl @ s @ [10])"

text \<open>The block of a disease: the description whole, the cause and the prevention cut at
  200 characters; the lines of names are those of the code.\<close>

definition amended_disease_block :: "disease_info \<Rightarrow> ustr" where
  "amended_disease_block info =
     [10, 12304] @ name info @ [12305, 10]
     @ labelled_line [31616, 20171, 65306] (description info)
     @ names_line [30151, 29366, 65306] 10 (symptoms info)
     @ labelled_line [30149, 22240, 65306] (truncate_with_ellipsis 200 (cause info))
     @ labelled_line [39044, 38450, 65306] (truncate_with_ellipsis 200 (prevent info))
     @ names_line [23601, 35786, 31185, 23460, 65306] (length (departments info)) (departments info)
     @ names_line [27835, 30103, 26041, 27861, 65306] 5 (cure_ways info)
     @ drugs_line info
     @ names_line [23452, 21507, 39135, 29289, 65306] 5 (do_eat info)
     @ names_line [24524, 21507, 39135, 29289, 65306] 5 (not_eat info)
     @ names_line [26816, 26597, 39033, 30446, 65306] 5 (checks info)
     @ names_line [24182, 21457, 30151, 65306] 5 (complications info)"

text \<open>The blocks of one entity: the block of the disease when the store has a record with
  a description under its name; otherwise the block of the symptom when some disease has
  it; otherwise none.\<close>

definition amended_blocks :: "kg_store \<Rightarrow> ustr \<Rightarrow> ustr list" where
  "amended_blocks kg entity =
     (case disease_records kg entity of
        Some info \<Rightarrow>
          if description info \<noteq> [] then [amended_disease_block info]
          else if symptom_diseases kg entity \<noteq> []
            then [symptom_context entity (symptom_diseases kg entity)] else []
      | None \<Rightarrow>
          if symptom_diseases kg entity \<noteq> []
          then [symptom_context entity (symptom_diseases kg entity)] else [])"

text \<open>The context of a query: the blocks of its first three entities, joined by a line
  feed; nothing while the store is disconnected.\<close>

definition amended_kg_context :: "kg_store \<Rightarrow> ustr list \<Rightarrow> ustr" where
  "amended_kg_context kg entities =
     (if is_connected kg then join [10] (concat (map (amended_blocks kg) (take 3 entities)))
      else [])"


section \<open>Rounding and the bounds of the confidence score\<close>

lemma round_half_even_bounds:
  "x - 1 / 2 \<le> of_int (round_half_even x) \<and> of_int (round_half_even x) \<le> x + 1 / 2"
proof -
  have "of_int \<lfloor>x\<rfloor> \<le> x" and "x < of_int \<lfloor>x\<rfloor> + 1" by linarith+
  then show ?thesis
    unfolding round_half_even_def Let_def by (simp add: not_less) linarith
qed

lemma round_half_even_of_int: "round_half_even (of_int n) = n"
  by (simp add: round_half_even_def)

lemma round_half_even_mono_lower: "0 \<le> x \<Longrightarrow> 0 \<le> round_half_even x"
  unfolding round_half_even_def Let_def by auto

lemma round_half_even_upper: "x \<le> of_int n \<Longrightarrow> round_half_even x \<le> n"
proof (cases "x = of_int n")
  case True then show ?thesis by (simp add: round_half_even_of_int)
next
  case False
  assume "x \<le> of_int n"
  with False have "x < of_int n" by simp
  then have "\<lfloor>x\<rfloor> < n" by (simp add: floor_less_iff)
  then show ?thesis unfolding round_half_even_def Let_def by auto
qed

lemma round2_unit: assumes "0 \<le> x" "x \<le> 1" shows "0 \<le> round2 x \<and> round2 x \<le> 1"
proof -
  have "0 \<le> round_half_even (x * 100)" using assms by (intro round_half_even_mono_lower) simp
  moreover have "round_half_even (x * 100) \<le> 100"
    using assms by (intro round_half_even_upper) simp
  ultimately show ?thesis by (simp add: round2_def)
qed

lemma round2_close: "\<bar>round2 x - x\<bar> \<le> 1 / 200"
proof -
  define r :: real where "r = of_int (round_half_even (x * 100))"
  have lo: "x * 100 - 1 / 2 \<le> r" and hi: "r \<le> x * 100 + 1 / 2"
    using round_half_even_bounds [of "x * 100"] by (simp_all add: r_def)
  have eq: "round2 x = r / 100"
    by (simp add: round2_def r_def)
  have "r / 100 - x \<le> 1 / 200" using hi by (simp add: field_simps)
  moreover have "- (1 / 200) \<le> r / 100 - x" using lo by (simp add: field_simps)
  ultimately show ?thesis unfolding eq abs_le_iff by simp
qed

lemma sum_list_unit_bounds:
  "list_all (\<lambda>c. 0 \<le> c \<and> c \<le> (1::real)) cs \<Longrightarrow> 0 \<le> sum_list cs \<and> sum_list cs \<le> real (length cs)"
  by (induction cs) auto

lemma round2_default: "round2 0.7 = 0.7"
  by (simp add: round2_def round_half_even_def Let_def)

text \<open>The arithmetic of the sample runs has what the statements need.\<close>

lemma exact_arith_ok: "float_arith_ok exact_arith"
proof -
  have "0 \<le> float_div exact_arith (float_sum exact_arith cs) (length cs) \<and>
        float_div exact_arith (float_sum exact_arith cs) (length cs) \<le> 1"
    if "cs \<noteq> []" "list_all (\<lambda>c. 0 \<le> c \<and> c \<le> 1) cs" for cs
    using sum_list_unit_bounds [OF that(2)] that(1)
    by (simp add: exact_arith_def divide_le_eq)
  moreover have "0 \<le> float_round2 exact_arith x \<and> float_round2 exact_arith x \<le> 1"
    if "0 \<le> x \<and> x \<le> 1" for x
    using round2_unit [of x] that by (simp add: exact_arith_def)
  moreover have "float_round2 exact_arith 0.7 = 0.7"
    by (simp add: exact_arith_def round2_default)
  ultimately show ?thesis
    unfolding float_arith_ok_def by blast
qed

lemma nonzero_confidences_unit:
  "list_all evidence_valid evs \<Longrightarrow>
     list_all (\<lambda>c. 0 \<le> c \<and> c \<le> 1) (filter (\<lambda>c. c \<noteq> 0) (map confidence evs))"
  by (induction evs) (auto simp: evidence_valid_def)

lemma overall_confidence_unit:
  assumes "list_all evidence_valid evs" and "float_arith_ok a"
  shows "0 \<le> overall_confidence a evs \<and> overall_confidence a evs \<le> 1"
proof (cases "filter (\<lambda>c. c \<noteq> 0) (map confidence evs) = []")
  case True
  then show ?thesis by (simp add: overall_confidence_def)
next
  case False
  let ?cs = "filter (\<lambda>c. c \<noteq> 0) (map confidence evs)"
  have "\<forall>cs. cs \<noteq> [] \<and> list_all (\<lambda>c. 0 \<le> c \<and> c \<le> 1) cs \<longrightarrow>
          0 \<le> float_div a (float_sum a cs) (length cs) \<and>
          float_div a (float_sum a cs) (length cs) \<le> 1"
    using assms(2) unfolding float_arith_ok_def by blast
  then have "0 \<le> float_div a (float_sum a ?cs) (length ?cs) \<and>
             float_div a (float_sum a ?cs) (length ?cs) \<le> 1"
    using False nonzero_confidences_unit [OF assms(1)] by blast
  then show ?thesis
    using False unfolding overall_confidence_def Let_def
    by (simp only: not_False_eq_True if_True)
qed

lemma score_unit:
  assumes "list_all evidence_valid evs" and "float_arith_ok a"
  shows "0 \<le> float_round2 a (overall_confidence a evs) \<and>
         float_round2 a (overall_confidence a evs) \<le> 1"
  using overall_confidence_unit [OF assms] assms(2) unfolding float_arith_ok_def by blast

text \<open>With evidence items inside their declared bounds and an answer that is a string,
  the response passes its checks.\<close>

lemma build_response_ok:
  assumes "list_all evidence_valid evs" and "float_arith_ok (arith env)"
  shows "build_response env req (Some ans) evs paths kg_available =
     Inr \<lparr>query_id = fresh_query_id env,
        answer = ans,
        answer_src = determine_answer_source (provider env) kg_available,
        resp_evidence = take (max_answers req) evs,
        resp_kg_paths = paths,
        confidence_score = float_round2 (arith env) (overall_confidence (arith env) evs),
        warnings = build_warnings env evs kg_available,
        disclaimer = standard_disclaimer,
        processing_time_ms = elapsed_ms env,
        model_used = model_used_name env\<rparr>"
  using score_unit [OF assms]
  by (simp add: build_response_def QueryResponse_def)

lemma build_response_None: "build_response env req None evs paths kg_available = Inl ValidationError"
  by (simp add: build_response_def)

section \<open>The events of the generation step\<close>

lemma emit_chars_eq:
  "emit_chars s (evs, full) = (evs @ map (\<lambda>c. Content [c]) s, full @ s)"
  by (induction s arbitrary: evs full) auto

lemma emit_chunks_eq:
  "emit_chunks cs (evs, full) =
     (evs @ map Content (filter (\<lambda>c. c \<noteq> []) cs), full @ concat (filter (\<lambda>c. c \<noteq> []) cs))"
  by (induction cs arbitrary: evs full) auto

lemma map_Content_snoc: "map Content ps @ [Content a] = map Content (ps @ [a])"
  by simp

lemma emit_chars_Content:
  "emit_chars s (evs, full) = (evs @ map Content (map (\<lambda>c. [c]) s), full @ s)"
  by (simp add: emit_chars_eq o_def)

lemma stream_generate_shape:
  "\<exists>payloads ans. stream_generate env req entities evs paths kg_context kg_available sent =
     (sent @ map Content payloads, ans)"
proof (cases "provider env = Mock")
  case True
  then have "stream_generate env req entities evs paths kg_context kg_available sent =
     (sent @ map Content (map (\<lambda>c. [c])
        (if kg_available then generate_mock_response (query req) entities evs paths kg_context
         else generate_fallback_response (query req) entities)),
      (if kg_available then generate_mock_response (query req) entities evs paths kg_context
         else generate_fallback_response (query req) entities))"
    by (simp add: stream_generate_def emit_chars_Content)
  then show ?thesis by (intro exI)
next
  case False
  show ?thesis
  proof (cases "stream_result env")
    case (StreamCompleted chunks)
    show ?thesis
    proof (cases kg_available)
      case True
      with False StreamCompleted
      have "stream_generate env req entities evs paths kg_context kg_available sent =
         (sent @ map Content (filter (\<lambda>c. c \<noteq> []) chunks), concat (filter (\<lambda>c. c \<noteq> []) chunks))"
        by (simp add: stream_generate_def emit_chunks_eq)
      then show ?thesis by (intro exI)
    next
      case nokg: False
      with False StreamCompleted
      have "stream_generate env req entities evs paths kg_context kg_available sent =
         (sent @ map Content (filter (\<lambda>c. c \<noteq> []) chunks @ [no_kg_notice env]),
          concat (filter (\<lambda>c. c \<noteq> []) chunks) @ no_kg_notice env)"
        by (simp add: stream_generate_def emit_chunks_eq)
      then show ?thesis by (intro exI)
    qed
  next
    case (StreamFailed chunks)
    with False
    have "stream_generate env req entities evs paths kg_context kg_available sent =
       (sent @ map Content (filter (\<lambda>c. c \<noteq> []) chunks
                @ [generate_mock_response (query req) entities evs paths kg_context]),
        generate_mock_response (query req) entities evs paths kg_context)"
      by (simp add: stream_generate_def emit_chunks_eq Let_def)
    then show ?thesis by (intro exI)
  qed
qed


section \<open>The resolver while the graph store is not connected\<close>

text \<open>No search reaches the database, and the entities are those of the table and of the
  synonyms.\<close>

lemma search_disease_offline: "\<not> is_connected kg \<Longrightarrow> search_disease kg kw limit sent = ([], sent)"
  by (simp add: search_disease_def)

lemma search_symptom_offline: "\<not> is_connected kg \<Longrightarrow> search_symptom kg kw limit sent = ([], sent)"
  by (simp add: search_symptom_def)

lemma history_term_scan_offline:
  "\<not> is_connected kg \<Longrightarrow> history_term_scan kg ts (found, sent) = (found, sent)"
  by (induction ts) (simp_all add: search_disease_offline search_symptom_offline)

lemma history_scan_offline:
  "\<not> is_connected kg \<Longrightarrow> history_scan kg msgs (found, sent) = (found, sent)"
  by (induction msgs arbitrary: found sent) (simp_all add: history_term_scan_offline Let_def)

lemma window_scan_offline:
  "\<not> is_connected kg \<Longrightarrow> window_scan kg subs (found, sent) = (found, sent)"
  by (induction subs) (simp_all add: search_disease_offline)

lemma ngram_scan_offline:
  "\<not> is_connected kg \<Longrightarrow> ngram_scan kg txt ns (found, sent) = (found, sent)"
  by (induction ns arbitrary: found sent) (simp_all add: window_scan_offline Let_def)

lemma history_backoff_stage_offline:
  "\<not> is_connected kg \<Longrightarrow> history_backoff_stage kg h st = st"
  by (cases st) (simp add: history_backoff_stage_def history_scan_offline)

lemma aggressive_backoff_stage_offline:
  assumes "\<not> is_connected kg"
  shows "aggressive_backoff_stage kg q st = st"
proof (cases st)
  case (Pair found sent)
  show ?thesis
    unfolding aggressive_backoff_stage_def Let_def Pair
    by (simp add: search_disease_offline [OF assms] ngram_scan_offline [OF assms]
        del: ngram_scan.simps)
qed

lemma history_merge_stage_offline:
  "\<not> is_connected kg \<Longrightarrow> history_merge_stage kg q h st = st"
  by (simp add: history_merge_stage_def)

lemma extract_entities_from_kg_offline:
  assumes "\<not> is_connected kg"
  shows "extract_entities_from_kg_traced kg q h =
           (ordered_unique (add_synonyms SYNONYMS q (extract_entities q)), [])"
  unfolding extract_entities_from_kg_traced_def
  by (simp add: history_merge_stage_offline [OF assms] aggressive_backoff_stage_offline [OF assms]
      history_backoff_stage_offline [OF assms] current_turn_stage_def assms Let_def)


section \<open>Runs on a greeting while the graph store is not connected\<close>

text \<open>The greeting names no entity; with no graph data the only context is the text of
  the user's memories, which the synchronous path alone looks up.\<close>

lemma greeting_entities: "add_synonyms SYNONYMS greeting (extract_entities greeting) = []"
  by (simp add: greeting_def extract_entities_def medical_terms_def SYNONYMS_def)

lemma offline_greeting_entities:
  "\<not> is_connected kg \<Longrightarrow> extract_entities_from_kg kg greeting h = []"
  by (simp add: extract_entities_from_kg_def extract_entities_from_kg_offline greeting_entities
      ordered_unique_def)

lemma greeting_template:
  "generate_mock_response greeting entities evs paths [] =
     generate_default_response greeting evs @ fallback_notice"
  by (simp add: generate_mock_response_def mentions_any_def greeting_def)

lemma process_query_offline_greeting:
  assumes off: "\<not> is_connected (kg_service env)" and q: "query req = greeting"
  shows "process_query env req =
     build_response env req
       (sync_answer env req [] (retrieve_evidence env req) []
          (memory_text (memory_results env req))
          (memory_text (memory_results env req) \<noteq> []))
       (retrieve_evidence env req) [] (memory_text (memory_results env req) \<noteq> [])"
proof -
  have ents: "extract_entities_from_kg (kg_service env) (query req) (history req) = []"
    unfolding q by (rule offline_greeting_entities [OF off])
  have paths: "retrieve_kg_paths env req [] = []"
    by (simp add: retrieve_kg_paths_def)
  have ctx: "sync_kg_context env req [] [] = memory_text (memory_results env req)"
    by (simp add: sync_kg_context_def Let_def)
  show ?thesis
    unfolding process_query_def Let_def ents paths ctx
    by (simp add: has_kg_data_def)
qed

lemma process_query_stream_offline_greeting:
  assumes off: "\<not> is_connected (kg_service env)" and q: "query req = greeting"
    and ok: "list_all evidence_valid (retrieve_evidence env req)"
    and aok: "float_arith_ok (arith env)"
  shows "process_query_stream env req =
     \<lparr>events =
        fst (stream_generate env req [] (retrieve_evidence env req) [] [] False
               [Searching, EvidenceFound (length (retrieve_evidence env req)), Generating])
        @ [Complete
            \<lparr>query_id = fresh_query_id env,
             answer = snd (stream_generate env req [] (retrieve_evidence env req) [] [] False
                            [Searching, EvidenceFound (length (retrieve_evidence env req)),
                             Generating]),
             answer_src = determine_answer_source (provider env) False,
             resp_evidence = take (max_answers req) (retrieve_evidence env req),
             resp_kg_paths = [],
             confidence_score = float_round2 (arith env)
                                 (overall_confidence (arith env) (retrieve_evidence env req)),
             warnings = build_warnings env (retrieve_evidence env req) False,
             disclaimer = standard_disclaimer,
             processing_time_ms = elapsed_ms env,
             model_used = model_used_name env\<rparr>],
      raised = None\<rparr>"
proof -
  have ents: "extract_entities_from_kg (kg_service env) (query req) (history req) = []"
    unfolding q by (rule offline_greeting_entities [OF off])
  have paths: "retrieve_kg_paths env req [] = []"
    by (simp add: retrieve_kg_paths_def)
  have ctx: "stream_kg_context env req [] [] = []"
    by (simp add: stream_kg_context_def Let_def)
  show ?thesis
    unfolding process_query_stream_def Let_def ents paths ctx
    by (simp add: build_response_ok [OF ok aok] has_kg_data_def split: prod.split)
qed

lemma content_text_contents: "content_text (map Content ps @ es) = concat ps @ content_text es"
  by (induction ps) simp_all

lemma completed_answer_contents: "completed_answer (map Content ps @ es) = completed_answer es"
  by (induction ps) simp_all

lemma content_text_chars:
  "content_text (map (Content \<circ> f) xs @ es) = concat (map f xs) @ content_text es"
  by (induction xs) simp_all

lemma completed_answer_chars:
  "completed_answer (map (Content \<circ> f) xs @ es) = completed_answer es"
  by (induction xs) simp_all

lemma offline_services_facts:
  "\<not> is_connected (kg_service (offline_services p c s evs))"
  "provider (offline_services p c s evs) = p"
  "completion_result (offline_services p c s evs) = c"
  "stream_result (offline_services p c s evs) = s"
  "arith (offline_services p c s evs) = exact_arith"
  "retrieve_evidence (offline_services p c s evs) (plain_request q) = take 5 evs"
  "memory_results (offline_services p c s evs) (plain_request q) = []"
  "query (plain_request q) = q"
  by (simp_all add: offline_services_def offline_kg_def plain_request_def retrieve_evidence_def
      memory_results_def)

lemma remembering_services_facts:
  "\<not> is_connected (kg_service (remembering_services p c s evs))"
  "provider (remembering_services p c s evs) = p"
  "completion_result (remembering_services p c s evs) = c"
  "stream_result (remembering_services p c s evs) = s"
  "arith (remembering_services p c s evs) = exact_arith"
  "retrieve_evidence (remembering_services p c s evs) (known_user_request q) = take 5 evs"
  "memory_results (remembering_services p c s evs) (known_user_request q) = [sample_memory]"
  "query (known_user_request q) = q"
  by (simp_all add: remembering_services_def offline_services_def offline_kg_def
      known_user_request_def plain_request_def retrieve_evidence_def memory_results_def)

lemma memory_text_nonempty: "memory_text (m # ms) \<noteq> []"
  by (simp add: memory_text_def)


section \<open>The stages of the resolver only add entities\<close>

lemma set_ordered_unique: "set (ordered_unique xs) = set xs"
  by (simp add: ordered_unique_def)

lemma add_synonyms_extends: "set found \<subseteq> set (add_synonyms ps q found)"
proof (induction ps arbitrary: found)
  case Nil
  then show ?case by simp
next
  case (Cons p ps)
  obtain colloquial canonical where p: "p = (colloquial, canonical)" by (cases p)
  show ?case
    using Cons.IH [of "found @ [canonical]"] Cons.IH [of found] unfolding p by auto
qed

lemma append_missing_extends: "set found \<subseteq> set (append_missing ents found)"
proof (induction ents arbitrary: found)
  case Nil
  then show ?case by simp
next
  case (Cons e ents)
  show ?case
    using Cons.IH [of "found @ [e]"] Cons.IH [of found] by auto
qed

text \<open>One step of each scan, by what the database answers.\<close>

lemma kg_term_scan_Cons:
  "kg_term_scan kg (t # ts) (found, sent) =
     (if t \<in> set found \<or> \<not> is_connected kg then kg_term_scan kg ts (found, sent)
      else case disease_hits kg t 1 of
             d # ds \<Rightarrow> kg_term_scan kg ts (found @ [d], sent @ [DiseaseSearch t 1])
           | [] \<Rightarrow>
               (case symptom_hits kg t 1 of
                  s # ss \<Rightarrow> kg_term_scan kg ts
                     (found @ [s], sent @ [DiseaseSearch t 1, SymptomSearch t 1])
                | [] \<Rightarrow> kg_term_scan kg ts
                     (found, sent @ [DiseaseSearch t 1, SymptomSearch t 1])))"
  by (simp add: search_disease_def search_symptom_def split: list.splits)

lemma history_term_scan_Cons:
  "history_term_scan kg (t # ts) (found, sent) =
     (if t \<in> set found \<or> \<not> is_connected kg then history_term_scan kg ts (found, sent)
      else case disease_hits kg t 1 of
             d # ds \<Rightarrow> (found @ [d], sent @ [DiseaseSearch t 1])
           | [] \<Rightarrow>
               (case symptom_hits kg t 1 of
                  s # ss \<Rightarrow> (found @ [s], sent @ [DiseaseSearch t 1, SymptomSearch t 1])
                | [] \<Rightarrow> history_term_scan kg ts
                     (found, sent @ [DiseaseSearch t 1, SymptomSearch t 1])))"
  by (simp add: search_disease_def search_symptom_def split: list.splits)

lemma window_scan_Cons:
  "window_scan kg (sub # subs) (found, sent) =
     (if sub \<in> set found \<or> \<not> is_connected kg then window_scan kg subs (found, sent)
      else case disease_hits kg sub 1 of
             d # ds \<Rightarrow> (found @ [d], sent @ [DiseaseSearch sub 1])
           | [] \<Rightarrow> window_scan kg subs (found, sent @ [DiseaseSearch sub 1]))"
  by (simp add: search_disease_def split: list.splits)

lemma kg_term_scan_extends:
  "set found \<subseteq> set (fst (kg_term_scan kg ts (found, sent)))"
proof (induction ts arbitrary: found sent)
  case Nil
  then show ?case by simp
next
  case (Cons t ts)
  have "set found \<subseteq> set (fst (kg_term_scan kg ts (found, s)))"
    and "set found \<subseteq> set (fst (kg_term_scan kg ts (found @ [x], s)))" for x s
    using Cons.IH [of found s] Cons.IH [of "found @ [x]" s] by auto
  then show ?case
    unfolding kg_term_scan_Cons by (simp split: list.splits)
qed

lemma history_term_scan_extends:
  "set found \<subseteq> set (fst (history_term_scan kg ts (found, sent)))"
proof (induction ts arbitrary: found sent)
  case Nil
  then show ?case by simp
next
  case (Cons t ts)
  show ?case
    unfolding history_term_scan_Cons using Cons.IH by (auto split: list.splits)
qed

lemma history_scan_extends: "set (fst st) \<subseteq> set (fst (history_scan kg msgs st))"
proof (induction msgs arbitrary: st)
  case Nil
  then show ?case by simp
next
  case (Cons msg msgs)
  obtain found sent where st: "st = (found, sent)" by (cases st)
  have step: "set found \<subseteq> set (fst (history_term_scan kg ts (found, sent)))" for ts
    by (rule history_term_scan_extends)
  show ?case
    unfolding st using Cons.IH [of "(found, sent)"]
      Cons.IH [of "history_term_scan kg (potential_terms 12 (content msg)) (found, sent)"]
      step [of "potential_terms 12 (content msg)"]
    by (auto simp: Let_def)
qed

lemma window_scan_extends:
  "set found \<subseteq> set (fst (window_scan kg subs (found, sent)))"
proof (induction subs arbitrary: found sent)
  case Nil
  then show ?case by simp
next
  case (Cons sub subs)
  show ?case
    unfolding window_scan_Cons using Cons.IH by (auto split: list.splits)
qed

lemma ngram_scan_extends: "set (fst st) \<subseteq> set (fst (ngram_scan kg txt ns st))"
proof (induction ns arbitrary: st)
  case Nil
  then show ?case by simp
next
  case (Cons n ns)
  obtain found sent where st: "st = (found, sent)" by (cases st)
  show ?case
    unfolding st using Cons.IH [of "window_scan kg (windows n txt) (found, sent)"]
      window_scan_extends [of found kg "windows n txt" sent]
    by (auto simp: Let_def)
qed

lemma history_backoff_stage_extends:
  "set (fst st) \<subseteq> set (fst (history_backoff_stage kg h st))"
  using history_scan_extends [of st] by (simp add: history_backoff_stage_def)

lemma aggressive_backoff_stage_extends:
  "set (fst st) \<subseteq> set (fst (aggressive_backoff_stage kg q st))"
  by (simp add: aggressive_backoff_stage_def)

lemma history_merge_stage_extends:
  "set (fst st) \<subseteq> set (fst (history_merge_stage kg q h st))"
proof (cases st)
  case (Pair found sent)
  have "set found \<subseteq> set (append_missing ents (fst (kg_term_scan kg ts (found, sent))))"
    for ents ts
    using kg_term_scan_extends [of found kg ts sent]
      append_missing_extends [of "fst (kg_term_scan kg ts (found, sent))" ents]
    by (rule order_trans)
  then show ?thesis
    unfolding Pair history_merge_stage_def Let_def by simp
qed

lemma current_turn_in_result:
  "set (fst (current_turn_stage kg q)) \<subseteq> set (extract_entities_from_kg kg q h)"
proof -
  have "set (fst (current_turn_stage kg q))
        \<subseteq> set (fst (history_backoff_stage kg h (current_turn_stage kg q)))"
    by (rule history_backoff_stage_extends)
  also have "\<dots> \<subseteq> set (fst (aggressive_backoff_stage kg q
                 (history_backoff_stage kg h (current_turn_stage kg q))))"
    by (rule aggressive_backoff_stage_extends)
  also have "\<dots> \<subseteq> set (fst (history_merge_stage kg q h (aggressive_backoff_stage kg q
                 (history_backoff_stage kg h (current_turn_stage kg q)))))"
    by (rule history_merge_stage_extends)
  finally show ?thesis
    by (simp add: extract_entities_from_kg_def extract_entities_from_kg_traced_def Let_def
        set_ordered_unique)
qed


section \<open>The two paths compared\<close>

lemma retrieve_kg_paths_offline:
  "\<not> is_connected (kg_service env) \<Longrightarrow> retrieve_kg_paths env req entities = []"
  by (simp add: retrieve_kg_paths_def find_paths_for_query_def)

lemma stream_kg_context_offline:
  "\<not> is_connected (kg_service env) \<Longrightarrow> stream_kg_context env req entities [] = []"
  by (simp add: stream_kg_context_def)

text \<open>While the graph store is not connected, the streaming path finds no graph data: the
  response of its complete event is marked template without a provider and llm_only with
  one.\<close>

lemma stream_offline_answer_source:
  assumes off: "\<not> is_connected (kg_service env)"
    and ok: "list_all evidence_valid (retrieve_evidence env req)"
    and aok: "float_arith_ok (arith env)"
  shows "\<exists>payloads r. process_query_stream env req =
       \<lparr>events = [Searching, EvidenceFound (length (retrieve_evidence env req)), Generating]
                  @ map Content payloads @ [Complete r],
        raised = None\<rparr> \<and>
     answer_src r = (if provider env = Mock then TEMPLATE else LLM_ONLY)"
proof -
  define entities where "entities = extract_entities_from_kg (kg_service env) (query req) (history req)"
  define evs where "evs = retrieve_evidence env req"
  obtain payloads ans where gen:
    "stream_generate env req entities evs [] [] False
        [Searching, EvidenceFound (length evs), Generating]
       = ([Searching, EvidenceFound (length evs), Generating] @ map Content payloads, ans)"
    using stream_generate_shape by blast
  have okk: "list_all evidence_valid evs" using ok by (simp add: evs_def)
  have "process_query_stream env req =
       \<lparr>events = [Searching, EvidenceFound (length (retrieve_evidence env req)), Generating]
                  @ map Content payloads
                  @ [Complete \<lparr>query_id = fresh_query_id env,
        answer = ans,
        answer_src = determine_answer_source (provider env) False,
        resp_evidence = take (max_answers req) evs,
        resp_kg_paths = [],
        confidence_score = float_round2 (arith env) (overall_confidence (arith env) evs),
        warnings = build_warnings env evs False,
        disclaimer = standard_disclaimer,
        processing_time_ms = elapsed_ms env,
        model_used = model_used_name env\<rparr>],
        raised = None\<rparr>"
    unfolding process_query_stream_def Let_def
    using gen build_response_ok [OF okk aok]
    by (simp add: entities_def evs_def retrieve_kg_paths_offline [OF off]
        stream_kg_context_offline [OF off] has_kg_data_def)
  then show ?thesis
    by (intro exI conjI, assumption) (simp add: determine_answer_source_def)
qed

lemma sync_kg_context_without_memory:
  "memory_results env req = [] \<Longrightarrow>
     sync_kg_context env req entities paths = stream_kg_context env req entities paths"
  by (simp add: sync_kg_context_def stream_kg_context_def memory_text_def Let_def)

lemma concat_chars: "concat (map (\<lambda>c. [c]) s) = s"
  by (induction s) simp_all

text \<open>When the provider's stream does not fail after a fragment, the texts sent are the
  final answer.\<close>

lemma stream_generate_text:
  assumes "provider env = Mock \<or> (\<exists>cs. stream_result env = StreamCompleted cs) \<or>
           stream_result env = StreamFailed []"
  shows "\<exists>payloads. stream_generate env req entities evs paths ctx av sent =
           (sent @ map Content payloads, concat payloads)"
proof (cases "provider env = Mock")
  case True
  then have "stream_generate env req entities evs paths ctx av sent =
     (sent @ map Content (map (\<lambda>c. [c])
        (if av then generate_mock_response (query req) entities evs paths ctx
         else generate_fallback_response (query req) entities)),
      concat (map (\<lambda>c. [c])
        (if av then generate_mock_response (query req) entities evs paths ctx
         else generate_fallback_response (query req) entities)))"
    by (simp add: stream_generate_def emit_chars_Content concat_chars)
  then show ?thesis by (intro exI)
next
  case False
  with assms consider (completed) cs where "stream_result env = StreamCompleted cs"
    | (failed) "stream_result env = StreamFailed []" by blast
  then show ?thesis
  proof cases
    case completed
    show ?thesis
    proof (cases av)
      case True
      with False completed
      have "stream_generate env req entities evs paths ctx av sent =
         (sent @ map Content (filter (\<lambda>c. c \<noteq> []) cs), concat (filter (\<lambda>c. c \<noteq> []) cs))"
        by (simp add: stream_generate_def emit_chunks_eq)
      then show ?thesis by (intro exI)
    next
      case nokg: False
      with False completed
      have "stream_generate env req entities evs paths ctx av sent =
         (sent @ map Content (filter (\<lambda>c. c \<noteq> []) cs @ [no_kg_notice env]),
          concat (filter (\<lambda>c. c \<noteq> []) cs @ [no_kg_notice env]))"
        by (simp add: stream_generate_def emit_chunks_eq)
      then show ?thesis by (intro exI)
    qed
  next
    case failed
    with False
    have "stream_generate env req entities evs paths ctx av sent =
       (sent @ map Content [generate_mock_response (query req) entities evs paths ctx],
        concat [generate_mock_response (query req) entities evs paths ctx])"
      by (simp add: stream_generate_def Let_def)
    then show ?thesis by (intro exI)
  qed
qed

lemma streamed_text_is_answer:
  assumes ok: "list_all evidence_valid (retrieve_evidence env req)"
    and aok: "float_arith_ok (arith env)"
    and nofail: "provider env = Mock \<or> (\<exists>cs. stream_result env = StreamCompleted cs) \<or>
           stream_result env = StreamFailed []"
  shows "raised (process_query_stream env req) = None \<and>
     completed_answer (events (process_query_stream env req)) =
       Some (content_text (events (process_query_stream env req)))"
proof -
  define entities where "entities = extract_entities_from_kg (kg_service env) (query req) (history req)"
  define paths where "paths = retrieve_kg_paths env req entities"
  define evs where "evs = retrieve_evidence env req"
  define ctx where "ctx = stream_kg_context env req entities paths"
  define av where "av = has_kg_data ctx paths"
  obtain payloads where gen:
    "stream_generate env req entities evs paths ctx av [Searching, EvidenceFound (length evs), Generating]
       = ([Searching, EvidenceFound (length evs), Generating] @ map Content payloads, concat payloads)"
    using stream_generate_text [OF nofail] by blast
  have okk: "list_all evidence_valid evs" using ok by (simp add: evs_def)
  have "process_query_stream env req =
       \<lparr>events = [Searching, EvidenceFound (length evs), Generating]
                  @ map Content payloads
                  @ [Complete \<lparr>query_id = fresh_query_id env,
        answer = concat payloads,
        answer_src = determine_answer_source (provider env) av,
        resp_evidence = take (max_answers req) evs,
        resp_kg_paths = paths,
        confidence_score = float_round2 (arith env) (overall_confidence (arith env) evs),
        warnings = build_warnings env evs av,
        disclaimer = standard_disclaimer,
        processing_time_ms = elapsed_ms env,
        model_used = model_used_name env\<rparr>],
        raised = None\<rparr>"
    unfolding process_query_stream_def Let_def
    using gen build_response_ok [OF okk aok]
    by (simp add: entities_def paths_def evs_def ctx_def av_def)
  then show ?thesis
    by (simp add: content_text_contents completed_answer_contents)
qed

text \<open>Without memories of the user and without a provider, both paths give the same
  answer.\<close>

lemma same_answer_without_memory:
  assumes ok: "list_all evidence_valid (retrieve_evidence env req)"
    and aok: "float_arith_ok (arith env)"
    and nomem: "memory_results env req = []" and mock: "provider env = Mock"
  shows "\<exists>r. process_query env req = Inr r \<and>
     completed_answer (events (process_query_stream env req)) = Some (answer r)"
proof -
  define entities where "entities = extract_entities_from_kg (kg_service env) (query req) (history req)"
  define paths where "paths = retrieve_kg_paths env req entities"
  define evs where "evs = retrieve_evidence env req"
  define ctx where "ctx = stream_kg_context env req entities paths"
  define av where "av = has_kg_data ctx paths"
  define ans where "ans = (if av then generate_mock_response (query req) entities evs paths ctx
         else generate_fallback_response (query req) entities)"
  have okk: "list_all evidence_valid evs" using ok by (simp add: evs_def)
  have sctx: "sync_kg_context env req entities paths = ctx"
    unfolding ctx_def by (rule sync_kg_context_without_memory [OF nomem])
  have ans: "sync_answer env req entities evs paths ctx av = Some ans"
    by (simp add: sync_answer_def mock ans_def)
  have sync: "process_query env req = build_response env req (Some ans) evs paths av"
    unfolding process_query_def Let_def
    using ans sctx by (simp add: entities_def paths_def evs_def av_def)
  have gen: "stream_generate env req entities evs paths ctx av
        [Searching, EvidenceFound (length evs), Generating] =
      ([Searching, EvidenceFound (length evs), Generating] @ map Content (map (\<lambda>c. [c]) ans), ans)"
    by (simp add: stream_generate_def mock emit_chars_Content ans_def)
  have "process_query_stream env req =
       \<lparr>events = [Searching, EvidenceFound (length evs), Generating]
                  @ map Content (map (\<lambda>c. [c]) ans)
                  @ [Complete \<lparr>query_id = fresh_query_id env,
        answer = ans,
        answer_src = determine_answer_source (provider env) av,
        resp_evidence = take (max_answers req) evs,
        resp_kg_paths = paths,
        confidence_score = float_round2 (arith env) (overall_confidence (arith env) evs),
        warnings = build_warnings env evs av,
        disclaimer = standard_disclaimer,
        processing_time_ms = elapsed_ms env,
        model_used = model_used_name env\<rparr>],
        raised = None\<rparr>"
    unfolding process_query_stream_def Let_def
    using gen build_response_ok [OF okk aok]
    by (simp add: entities_def paths_def evs_def ctx_def av_def)
  then have stream: "completed_answer (events (process_query_stream env req)) = Some ans"
    by (simp add: completed_answer_chars)
  show ?thesis
    unfolding sync stream using build_response_ok [OF okk aok] by simp
qed


section \<open>The sample stores\<close>

lemma get_kg_context_single_disease:
  assumes "is_connected kg" "disease_records kg e = Some info" "description info \<noteq> []"
  shows "get_kg_context_for_query kg [e] = disease_context info"
  using assms by (simp add: get_kg_context_for_query_def get_full_disease_info_def)

lemma long_text_length: "length long_text = 201"
  by (simp add: long_text_def)

lemma record_kg_facts:
  "is_connected (record_kg n info)"
  "disease_records (record_kg n info) n = Some info"
  by (simp_all add: record_kg_def empty_kg_def offline_kg_def)





lemma headache_entities:
  "extract_entities_from_kg (record_kg headache info) headache None = [headache]"
  by (simp add: extract_entities_from_kg_def extract_entities_from_kg_traced_def
      history_merge_stage_def aggressive_backoff_stage_def history_backoff_stage_def
      current_turn_stage_def record_kg_def empty_kg_def offline_kg_def headache_def
      extract_entities_def medical_terms_def SYNONYMS_def potential_terms_def is_cjk_def
      ordered_unique_def Let_def)


section \<open>The order of the streamed events\<close>

text \<open>
  Claim C7. A run of the streaming path sends one searching event, one evidence_found
  event with the number of evidence items retrieved, one generating event, then content
  events only, and last a single complete event; the generator ends without an exception,
  so nothing follows the complete event. The complete event carries the whole response:
  the identifier of the query, the answer accumulated by the generation step, the answer
  source, the evidence items cut to \<open>max_answers\<close>, the graph paths, the rounded
  score, the warnings, the disclaimer, the processing time and the name of the model. The
  evidence items respect the bounds of their model, and the arithmetic of the interpreter
  keeps a mean of numbers of the unit interval, and its rounding, in the unit interval.
\<close>

theorem stream_event_order:
  assumes "list_all evidence_valid (retrieve_evidence env req)"
    and "float_arith_ok (arith env)"
  shows "\<exists>payloads.
     process_query_stream env req =
       (let entities = extract_entities_from_kg (kg_service env) (query req) (history req);
            kg_paths = retrieve_kg_paths env req entities;
            evs = retrieve_evidence env req;
            kg_context = stream_kg_context env req entities kg_paths;
            kg_available = has_kg_data kg_context kg_paths
        in \<lparr>events = [Searching, EvidenceFound (length evs), Generating]
                  @ map Content payloads
                  @ [Complete
                      \<lparr>query_id = fresh_query_id env,
                       answer = snd (stream_generate env req entities evs kg_paths kg_context
                                       kg_available
                                       [Searching, EvidenceFound (length evs), Generating]),
                       answer_src = determine_answer_source (provider env) kg_available,
                       resp_evidence = take (max_answers req) evs,
                       resp_kg_paths = kg_paths,
                       confidence_score =
                         float_round2 (arith env) (overall_confidence (arith env) evs),
                       warnings = build_warnings env evs kg_available,
                       disclaimer = standard_disclaimer,
                       processing_time_ms = elapsed_ms env,
                       model_used = model_used_name env\<rparr>],
              raised = None\<rparr>)"
proof -
  define entities where "entities = extract_entities_from_kg (kg_service env) (query req) (history req)"
  define paths where "paths = retrieve_kg_paths env req entities"
  define evs where "evs = retrieve_evidence env req"
  define ctx where "ctx = stream_kg_context env req entities paths"
  define av where "av = has_kg_data ctx paths"
  obtain payloads ans where gen:
    "stream_generate env req entities evs paths ctx av [Searching, EvidenceFound (length evs), Generating]
       = ([Searching, EvidenceFound (length evs), Generating] @ map Content payloads, ans)"
    using stream_generate_shape by blast
  have ok: "list_all evidence_valid evs" using assms(1) by (simp add: evs_def)
  have "process_query_stream env req =
       \<lparr>events = [Searching, EvidenceFound (length evs), Generating]
                  @ map Content payloads
                  @ [Complete \<lparr>query_id = fresh_query_id env,
        answer = snd (stream_generate env req entities evs paths ctx av
                        [Searching, EvidenceFound (length evs), Generating]),
        answer_src = determine_answer_source (provider env) av,
        resp_evidence = take (max_answers req) evs,
        resp_kg_paths = paths,
        confidence_score = float_round2 (arith env) (overall_confidence (arith env) evs),
        warnings = build_warnings env evs av,
        disclaimer = standard_disclaimer,
        processing_time_ms = elapsed_ms env,
        model_used = model_used_name env\<rparr>],
        raised = None\<rparr>"
    unfolding process_query_stream_def Let_def
    using gen build_response_ok [OF ok assms(2)]
    by (simp add: entities_def paths_def evs_def ctx_def av_def)
  then have "process_query_stream env req =
       (let entities = extract_entities_from_kg (kg_service env) (query req) (history req);
            kg_paths = retrieve_kg_paths env req entities;
            evs = retrieve_evidence env req;
            kg_context = stream_kg_context env req entities kg_paths;
            kg_available = has_kg_data kg_context kg_paths
        in \<lparr>events = [Searching, EvidenceFound (length evs), Generating]
                  @ map Content payloads
                  @ [Complete
                      \<lparr>query_id = fresh_query_id env,
                       answer = snd (stream_generate env req entities evs kg_paths kg_context
                                       kg_available
                                       [Searching, EvidenceFound (length evs), Generating]),
                       answer_src = determine_answer_source (provider env) kg_available,
                       resp_evidence = take (max_answers req) evs,
                       resp_kg_paths = kg_paths,
                       confidence_score =
                         float_round2 (arith env) (overall_confidence (arith env) evs),
                       warnings = build_warnings env evs kg_available,
                       disclaimer = standard_disclaimer,
                       processing_time_ms = elapsed_ms env,
                       model_used = model_used_name env\<rparr>],
              raised = None\<rparr>)"
    unfolding Let_def entities_def paths_def evs_def ctx_def av_def .
  then show ?thesis by (intro exI)
qed

text \<open>Claim C7 on a run without a provider and without a graph store, on a greeting and
  one evidence item of confidence 3/4: the answer of the complete event is the text of
  \<open>_generate_fallback_response\<close>, the source is template, the score 0.75.\<close>

theorem stream_event_order_witness:
  "list_all evidence_valid
     (retrieve_evidence (offline_services Mock Timeout (StreamCompleted []) [sample_evidence 0.75])
        (plain_request greeting)) \<and>
   float_arith_ok (arith (offline_services Mock Timeout (StreamCompleted []) [sample_evidence 0.75])) \<and>
   (\<exists>payloads.
      process_query_stream (offline_services Mock Timeout (StreamCompleted []) [sample_evidence 0.75])
        (plain_request greeting) =
        \<lparr>events = [Searching, EvidenceFound 1, Generating]
                   @ map Content payloads
                   @ [Complete
                       \<lparr>query_id = fresh_query_id
                          (offline_services Mock Timeout (StreamCompleted []) [sample_evidence 0.75]),
                        answer = generate_fallback_response greeting [],
                        answer_src = TEMPLATE,
                        resp_evidence = [sample_evidence 0.75],
                        resp_kg_paths = [],
                        confidence_score = 0.75,
                        warnings = build_warnings
                          (offline_services Mock Timeout (StreamCompleted []) [sample_evidence 0.75])
                          [sample_evidence 0.75] False,
                        disclaimer = standard_disclaimer,
                        processing_time_ms = 12,
                        model_used = model_used_name
                          (offline_services Mock Timeout (StreamCompleted []) [sample_evidence 0.75])\<rparr>],
         raised = None\<rparr>)"
proof -
  let ?env = "offline_services Mock Timeout (StreamCompleted []) [sample_evidence 0.75]"
  let ?req = "plain_request greeting"
  have evs: "retrieve_evidence ?env ?req = [sample_evidence 0.75]"
    by (simp add: retrieve_evidence_def offline_services_def plain_request_def)
  have ok: "list_all evidence_valid (retrieve_evidence ?env ?req)"
    unfolding evs by (simp add: evidence_valid_def sample_evidence_def)
  have aok: "float_arith_ok (arith ?env)"
    by (simp add: offline_services_facts exact_arith_ok)
  have ents: "extract_entities_from_kg (kg_service ?env) (query ?req) (history ?req) = []"
    by (simp add: offline_services_facts offline_greeting_entities)
  have paths: "retrieve_kg_paths ?env ?req [] = []"
    by (simp add: retrieve_kg_paths_def)
  have ctx: "stream_kg_context ?env ?req [] [] = []"
    by (simp add: stream_kg_context_def Let_def)
  have av: "has_kg_data [] [] = False"
    by (simp add: has_kg_data_def)
  have ans: "snd (stream_generate ?env ?req [] [sample_evidence 0.75] [] [] False sent) =
             generate_fallback_response greeting []" for sent
    by (simp add: stream_generate_def offline_services_facts emit_chars_Content)
  have score: "float_round2 (arith ?env) (overall_confidence (arith ?env) [sample_evidence 0.75])
                 = 0.75"
    by (simp add: offline_services_facts exact_arith_def overall_confidence_def
        sample_evidence_def round2_def round_half_even_def Let_def)
  have src: "determine_answer_source (provider ?env) False = TEMPLATE"
    by (simp add: determine_answer_source_def offline_services_facts)
  have ms: "elapsed_ms ?env = 12"
    by (simp add: offline_services_def)
  have req: "max_answers ?req = 3"
    by (simp add: plain_request_def)
  have "\<exists>payloads. process_query_stream ?env ?req =
        \<lparr>events = [Searching, EvidenceFound 1, Generating]
                   @ map Content payloads
                   @ [Complete
                       \<lparr>query_id = fresh_query_id ?env,
                        answer = generate_fallback_response greeting [],
                        answer_src = TEMPLATE,
                        resp_evidence = [sample_evidence 0.75],
                        resp_kg_paths = [],
                        confidence_score = 0.75,
                        warnings = build_warnings ?env [sample_evidence 0.75] False,
                        disclaimer = standard_disclaimer,
                        processing_time_ms = 12,
                        model_used = model_used_name ?env\<rparr>],
         raised = None\<rparr>"
    using stream_event_order [OF ok aok]
    unfolding Let_def ents paths evs ctx av ans score src ms req by simp
  then show ?thesis
    using ok aok by (intro conjI)
qed


section \<open>The answer source without a graph store\<close>

text \<open>
  Claim C2 says that a request processed while the graph store is disconnected never gets
  the answer source knowledge_graph or mixed. The synchronous path puts the text of the
  user's memories in front of the graph context (lines 663-667) and takes a non-empty
  context for graph data (line 699): for a known user with one stored memory and the store
  disconnected, the response of a run without a provider is marked knowledge_graph, and
  that of a run with a provider mixed.
\<close>

theorem offline_memory_answer_source:
  "\<not> is_connected (kg_service (remembering_services Mock Timeout (StreamCompleted []) [])) \<and>
   \<not> isl (process_query (remembering_services Mock Timeout (StreamCompleted []) [])
            (known_user_request greeting)) \<and>
   answer_src (projr (process_query (remembering_services Mock Timeout (StreamCompleted []) [])
            (known_user_request greeting))) = KNOWLEDGE_GRAPH \<and>
   \<not> is_connected (kg_service (remembering_services OpenAI (Success (Some greeting)) (StreamCompleted []) [])) \<and>
   \<not> isl (process_query (remembering_services OpenAI (Success (Some greeting)) (StreamCompleted []) [])
            (known_user_request greeting)) \<and>
   answer_src (projr (process_query (remembering_services OpenAI (Success (Some greeting)) (StreamCompleted []) [])
            (known_user_request greeting))) = MIXED"
  by (simp add: process_query_offline_greeting remembering_services_facts memory_text_nonempty
      determine_answer_source_def sync_answer_def build_response_ok exact_arith_ok)


section \<open>The answer source after a timeout\<close>

text \<open>
  Claim C3 says that after a timeout of the provider the answer is the template text and
  the answer source names the path that produced it. With SiliconFlow configured, the
  graph store disconnected and the call timing out, the answer is the default template
  with the notice that no AI model was used, and the answer source is llm_only: it is
  derived from the configured provider (lines 873-882).
\<close>

theorem timeout_keeps_provider_answer_source:
  "\<not> isl (process_query (offline_services SiliconFlow Timeout (StreamCompleted []) [])
            (plain_request greeting)) \<and>
   answer (projr (process_query (offline_services SiliconFlow Timeout (StreamCompleted []) [])
            (plain_request greeting))) = generate_default_response greeting [] @ fallback_notice \<and>
   answer_src (projr (process_query (offline_services SiliconFlow Timeout (StreamCompleted []) [])
            (plain_request greeting))) = LLM_ONLY"
  by (simp add: process_query_offline_greeting offline_services_facts memory_text_def
      determine_answer_source_def sync_answer_def greeting_template build_response_ok
      exact_arith_ok)


section \<open>The answers of the two paths\<close>

text \<open>
  Claim C4 says that both paths give the same final answer on the same request and the
  same state of the stores and the provider. For a known user with one stored memory, no
  provider and the graph store disconnected, both runs end normally, and the answer of the
  stream's complete event is not the answer of the synchronous response: only the
  synchronous path reads the memories, and it frames them as graph context.
\<close>

theorem sync_and_stream_answers_differ:
  "\<not> isl (process_query (remembering_services Mock Timeout (StreamCompleted []) [])
            (known_user_request greeting)) \<and>
   raised (process_query_stream (remembering_services Mock Timeout (StreamCompleted []) [])
            (known_user_request greeting)) = None \<and>
   completed_answer (events (process_query_stream (remembering_services Mock Timeout (StreamCompleted []) [])
            (known_user_request greeting))) \<noteq>
   Some (answer (projr (process_query (remembering_services Mock Timeout (StreamCompleted []) [])
            (known_user_request greeting))))"
proof -
  let ?env = "remembering_services Mock Timeout (StreamCompleted []) []"
  let ?req = "known_user_request greeting"
  have sync: "answer (projr (process_query ?env ?req)) =
      kg_answer_header @ memory_text [sample_memory] @ [10] @ fallback_notice @ kg_answer_reminder"
    by (simp add: process_query_offline_greeting remembering_services_facts memory_text_nonempty
        sync_answer_def generate_mock_response_def build_response_ok exact_arith_ok)
  have stream: "completed_answer (events (process_query_stream ?env ?req)) =
      Some (generate_fallback_response greeting [])"
    by (simp add: process_query_stream_offline_greeting remembering_services_facts
        stream_generate_def emit_chars_Content completed_answer_chars exact_arith_ok)
  have differ: "generate_fallback_response greeting [] \<noteq>
      kg_answer_header @ memory_text [sample_memory] @ [10] @ fallback_notice @ kg_answer_reminder"
    by (simp add: generate_fallback_response_def fallback_response_head_def kg_answer_header_def)
  show ?thesis
    unfolding sync stream using differ
    by (simp add: process_query_offline_greeting process_query_stream_offline_greeting
        remembering_services_facts sync_answer_def build_response_ok exact_arith_ok)
qed


section \<open>The streamed text and the final answer\<close>

text \<open>
  Claim C10 says that the texts of the content events, put together in the order sent, are
  the answer of the complete event. When the provider's stream delivers the fragment "A"
  and then fails, the handler sends the whole template answer after the fragment already
  sent and sets the final answer to the template alone (lines 1064-1069): the streamed
  text is "A" followed by the template, the answer of the complete event is the template.
\<close>

theorem stream_failure_content_differs:
  "raised (process_query_stream (offline_services SiliconFlow Timeout (StreamFailed [[65]]) [])
            (plain_request greeting)) = None \<and>
   content_text (events (process_query_stream (offline_services SiliconFlow Timeout (StreamFailed [[65]]) [])
            (plain_request greeting))) =
     [65] @ generate_default_response greeting [] @ fallback_notice \<and>
   completed_answer (events (process_query_stream (offline_services SiliconFlow Timeout (StreamFailed [[65]]) [])
            (plain_request greeting))) =
     Some (generate_default_response greeting [] @ fallback_notice)"
  by (simp add: process_query_stream_offline_greeting offline_services_facts
      stream_generate_def greeting_template Let_def exact_arith_ok)


section \<open>The free-text fields of the graph context\<close>

text \<open>The lines of the code are the labelled lines of the description: the description
  whole, the cause and the prevention cut at 200 characters.\<close>

lemma truncate_with_ellipsis_long:
  "n < length s \<Longrightarrow> truncate_with_ellipsis n s = take n s @ [46, 46, 46]"
  by (simp add: truncate_with_ellipsis_def)

lemma truncate_with_ellipsis_short:
  "length s \<le> n \<Longrightarrow> truncate_with_ellipsis n s = s"
  by (simp add: truncate_with_ellipsis_def)

lemma description_line_labelled:
  "description_line info = labelled_line [31616, 20171, 65306] (description info)"
  by (simp add: description_line_def labelled_line_def)

lemma cause_line_labelled:
  "cause_line info = labelled_line [30149, 22240, 65306] (truncate_with_ellipsis 200 (cause info))"
  by (cases "cause info = []")
     (simp_all add: cause_line_def labelled_line_def truncate_with_ellipsis_def)

lemma prevent_line_labelled:
  "prevent_line info =
     labelled_line [39044, 38450, 65306] (truncate_with_ellipsis 200 (prevent info))"
  by (cases "prevent info = []")
     (simp_all add: prevent_line_def labelled_line_def truncate_with_ellipsis_def)

lemma disease_context_amended: "disease_context info = amended_disease_block info"
  unfolding disease_context_def amended_disease_block_def description_line_labelled
    cause_line_labelled prevent_line_labelled
  by (simp add: names_line_def)

lemma context_parts_amended:
  "is_connected kg \<Longrightarrow> context_parts kg es = concat (map (amended_blocks kg) es)"
proof (induction es)
  case Nil
  show ?case by simp
next
  case (Cons e es)
  then show ?case
    by (simp add: amended_blocks_def get_full_disease_info_def get_diseases_by_symptom_def
        disease_context_amended split: option.split list.split)
qed

text \<open>
  Claim C9, as stated, fails for the description: a description of 201 characters is
  rendered whole, with no dots after it (kg_service.py line 576).
\<close>

theorem long_description_rendered_whole:
  "200 < length (description (sample_disease headache long_text [] [])) \<and>
   get_kg_context_for_query (record_kg headache (sample_disease headache long_text [] [])) [headache] =
     [10, 12304] @ headache @ [12305, 10] @ [31616, 20171, 65306] @ long_text @ [10]"
proof -
  have ne: "long_text \<noteq> []" using long_text_length by auto
  have "get_kg_context_for_query (record_kg headache (sample_disease headache long_text [] []))
          [headache] = disease_context (sample_disease headache long_text [] [])"
    by (rule get_kg_context_single_disease) (simp_all add: record_kg_facts sample_disease_def ne)
  then show ?thesis
    using ne
    by (simp add: disease_context_def sample_disease_def description_line_def cause_line_def
        prevent_line_def names_line_def drugs_line_def long_text_length)
qed

text \<open>
  Claim C9, amended. The graph context rendered for a query is, for every state of the
  graph store and every list of entities, the text of the description above: the blocks of
  the first three entities, joined by a line feed, where in the block of a disease the
  cause and the prevention are each cut at 200 characters, with three dots put after the
  cut, when they are longer than 200 characters, and are written out whole otherwise, and
  the description is written out whole, whatever its length.
\<close>

theorem free_text_fields_rendered:
  "get_kg_context_for_query kg entities = amended_kg_context kg entities"
  by (simp add: get_kg_context_for_query_def amended_kg_context_def context_parts_amended)

text \<open>The amended claim C9 on a query with two entities: a disease whose cause and
  prevention have 201 characters and whose description has three, and a name the store
  does not know. The one block has the description whole and the two other fields cut.\<close>

theorem free_text_fields_rendered_witness:
  "get_kg_context_for_query
     (record_kg headache (sample_disease headache [65, 66, 67] long_text long_text))
     [headache, cold] =
   [10, 12304] @ headache @ [12305, 10]
   @ [31616, 20171, 65306] @ [65, 66, 67] @ [10]
   @ [30149, 22240, 65306] @ replicate 200 65 @ [46, 46, 46] @ [10]
   @ [39044, 38450, 65306] @ replicate 200 65 @ [46, 46, 46] @ [10]"
proof -
  let ?info = "sample_disease headache [65, 66, 67] long_text long_text"
  have cut: "truncate_with_ellipsis 200 long_text = replicate 200 65 @ [46, 46, 46]"
    by (simp add: truncate_with_ellipsis_def long_text_def)
  have other: "cold \<noteq> headache"
    by (simp add: cold_def headache_def)
  have blocks: "concat (map (amended_blocks (record_kg headache ?info)) (take 3 [headache, cold]))
      = [amended_disease_block ?info]"
    using other
    by (simp add: amended_blocks_def record_kg_def empty_kg_def offline_kg_def sample_disease_def)
  have block: "amended_disease_block ?info =
     [10, 12304] @ headache @ [12305, 10]
     @ [31616, 20171, 65306] @ [65, 66, 67] @ [10]
     @ [30149, 22240, 65306] @ replicate 200 65 @ [46, 46, 46] @ [10]
     @ [39044, 38450, 65306] @ replicate 200 65 @ [46, 46, 46] @ [10]"
    unfolding amended_disease_block_def
    by (simp add: sample_disease_def cut labelled_line_def names_line_def drugs_line_def)
  show ?thesis
    unfolding free_text_fields_rendered [of "record_kg headache ?info" "[headache, cold]"]
      amended_kg_context_def blocks block
    by (simp add: record_kg_facts)
qed


section \<open>The confidence score\<close>












section \<open>A response for every request\<close>



lemma headache_run:
  "\<exists>paths ctx. process_query
      (graph_services (record_kg headache (sample_disease headache headache [] []))
         OpenAI c (StreamCompleted []) [])
      (plain_request headache) =
   build_response
      (graph_services (record_kg headache (sample_disease headache headache [] []))
         OpenAI c (StreamCompleted []) [])
      (plain_request headache)
      (case c of
         Success out \<Rightarrow> out
       | Timeout \<Rightarrow> Some (generate_mock_response headache [headache] [] paths ctx)
       | TransportError \<Rightarrow> Some (generate_mock_response headache [headache] [] paths ctx))
      [] paths True"
proof -
  let ?info = "sample_disease headache headache [] []"
  let ?env = "graph_services (record_kg headache ?info) OpenAI c (StreamCompleted []) []"
  let ?req = "plain_request headache"
  have kg: "kg_service ?env = record_kg headache ?info" "provider ?env = OpenAI"
    "completion_result ?env = c" "retrieve_evidence ?env ?req = []"
    by (simp_all add: graph_services_def offline_services_def retrieve_evidence_def)
  have ents: "extract_entities_from_kg (kg_service ?env) (query ?req) (history ?req) = [headache]"
    unfolding kg by (simp add: plain_request_def headache_entities)
  have hne: "headache \<noteq> []" by (simp add: headache_def)
  have ctx: "get_kg_context_for_query (record_kg headache ?info) [headache] = disease_context ?info"
    by (rule get_kg_context_single_disease) (simp_all add: record_kg_facts sample_disease_def hne)
  have ctx_ne: "disease_context ?info \<noteq> []"
    by (simp add: disease_context_def)
  define paths where "paths = retrieve_kg_paths ?env ?req [headache]"
  define sctx where "sctx = sync_kg_context ?env ?req [headache] paths"
  have run: "process_query ?env ?req =
      build_response ?env ?req
        (sync_answer ?env ?req [headache] [] paths sctx (has_kg_data sctx paths))
        [] paths (has_kg_data sctx paths)"
    unfolding process_query_def Let_def ents kg(4) paths_def sctx_def by (rule refl)
  have "sctx \<noteq> []"
    unfolding sctx_def sync_kg_context_def Let_def kg
    by (simp add: ctx ctx_ne record_kg_facts memory_results_def plain_request_def memory_text_def)
  then have av: "has_kg_data sctx paths = True"
    by (simp add: has_kg_data_def)
  have q: "query ?req = headache"
    by (simp add: plain_request_def)
  have ans: "sync_answer ?env ?req [headache] [] paths sctx True =
      (case c of
         Success out \<Rightarrow> out
       | Timeout \<Rightarrow> Some (generate_mock_response headache [headache] [] paths sctx)
       | TransportError \<Rightarrow> Some (generate_mock_response headache [headache] [] paths sctx))"
    unfolding sync_answer_def kg q
    by (simp split: completion.split option.split)
  have "process_query ?env ?req =
      build_response ?env ?req
        (case c of
           Success out \<Rightarrow> out
         | Timeout \<Rightarrow> Some (generate_mock_response headache [headache] [] paths sctx)
         | TransportError \<Rightarrow> Some (generate_mock_response headache [headache] [] paths sctx))
        [] paths True"
    unfolding run av ans by (rule refl)
  then show ?thesis by (intro exI)
qed


text \<open>
  In the same run with a completion that has no text at all (\<open>content\<close> is \<open>None\<close>),
  nothing replaces the answer, and the response model refuses it: the call ends with the
  validation error of the model. Without graph data the notice cannot be appended to
  \<open>None\<close>, the handler of the provider's exceptions takes over and the template
  answers.
\<close>

lemma none_completion_raises:
  "process_query
      (graph_services (record_kg headache (sample_disease headache headache [] []))
         OpenAI (Success None) (StreamCompleted []) [])
      (plain_request headache) = Inl ValidationError"
  using headache_run [of "Success None"] by (auto simp: build_response_None)




section \<open>The entities of the current turn and those of the whole conversation\<close>

text \<open>Two scans of the same terms from related lists of found entities: when the second
  list holds the first and no term to come is in the second only, the scans pass over the
  same terms and add the same hits.\<close>

lemma kg_term_scan_related:
  assumes "set F \<subseteq> set F'" and "\<forall>t \<in> set ts. t \<in> set F' \<longrightarrow> t \<in> set F"
  shows "set (fst (kg_term_scan kg ts (F, s))) \<subseteq> set (fst (kg_term_scan kg ts (F', s')))"
  using assms
proof (induction ts arbitrary: F F' s s')
  case Nil
  then show ?case by simp
next
  case (Cons t ts)
  have skip: "t \<in> set F' \<longleftrightarrow> t \<in> set F"
    using Cons.prems by auto
  have rest: "\<forall>u \<in> set ts. u \<in> set F' \<longrightarrow> u \<in> set F"
    using Cons.prems by simp
  have same: "set (fst (kg_term_scan kg ts (F, a))) \<subseteq> set (fst (kg_term_scan kg ts (F', b)))"
    for a b
    using Cons.IH [OF Cons.prems(1) rest] .
  have added: "set (fst (kg_term_scan kg ts (F @ [x], a)))
      \<subseteq> set (fst (kg_term_scan kg ts (F' @ [x], b)))" for x a b
  proof (rule Cons.IH)
    show "set (F @ [x]) \<subseteq> set (F' @ [x])" using Cons.prems(1) by auto
    show "\<forall>u \<in> set ts. u \<in> set (F' @ [x]) \<longrightarrow> u \<in> set (F @ [x])" using rest by auto
  qed
  show ?case
    unfolding kg_term_scan_Cons skip
    using same added by (simp split: list.splits)
qed

lemma urti_kg_facts:
  "is_connected urti_kg"
  "disease_hits urti_kg kw n = (if kw = urti then [acute_urti] else [])"
  "symptom_hits urti_kg kw n = []"
  by (simp_all add: urti_kg_def empty_kg_def offline_kg_def)

lemma urti_cold_table:
  "extract_entities urti_cold = [cold]"
  "add_synonyms SYNONYMS urti_cold [cold] = [cold, urti]"
  "potential_terms 6 urti_cold = [urti, cold]"
  by (simp_all add: extract_entities_def medical_terms_def SYNONYMS_def urti_cold_def cold_def
      urti_def potential_terms_def is_cjk_def)

lemma urti_cold_query_only:
  "extract_entities_from_query_only urti_kg urti_cold = [cold, acute_urti]"
proof -
  have ne: "urti \<noteq> cold" "acute_urti \<noteq> cold" "acute_urti \<noteq> urti"
    by (simp_all add: urti_def cold_def acute_urti_def)
  show ?thesis
    using ne
    by (simp add: extract_entities_from_query_only_def extract_entities_from_query_only_traced_def
        urti_cold_table urti_kg_facts kg_term_scan_Cons ordered_unique_def Let_def
        del: kg_term_scan.simps(2))
qed

lemma urti_cold_with_history:
  "extract_entities_from_kg urti_kg urti_cold greeting_history = [cold, urti]"
proof -
  have ne: "urti \<noteq> cold" "acute_urti \<noteq> cold" "acute_urti \<noteq> urti" "greeting \<noteq> cold"
    "greeting \<noteq> urti"
    by (simp_all add: urti_def cold_def acute_urti_def greeting_def)
  have cur: "current_turn_stage urti_kg urti_cold = ([cold, urti], [])"
    by (simp add: current_turn_stage_def urti_cold_table urti_kg_facts kg_term_scan_Cons Let_def
        del: kg_term_scan.simps(2))
  have combined: "join [32] (map content (last6 (history_list greeting_history))) @ [32] @ urti_cold
      = greeting @ [32] @ urti_cold"
    by (simp add: greeting_history_def last6_def)
  have terms: "potential_terms 6 (greeting @ [32] @ urti_cold) = [greeting, urti, cold]"
    "extract_entities (greeting @ [32] @ urti_cold) = [cold]"
    by (simp_all add: extract_entities_def medical_terms_def urti_cold_def cold_def
      urti_def greeting_def potential_terms_def is_cjk_def)
  have merge: "history_merge_stage urti_kg urti_cold greeting_history ([cold, urti], [])
      = ([cold, urti], [DiseaseSearch greeting 1, SymptomSearch greeting 1])"
    unfolding history_merge_stage_def Let_def combined terms
    using ne
    by (simp add: greeting_history_def urti_kg_facts kg_term_scan_Cons
        del: kg_term_scan.simps(2))
  show ?thesis
    using ne
    by (simp add: extract_entities_from_kg_def extract_entities_from_kg_traced_def cur
        history_backoff_stage_def aggressive_backoff_stage_def merge ordered_unique_def Let_def)
qed

text \<open>
  Claim C6, as stated, fails. The question names a cold and the canonical name that the
  synonym table gives for it; the history is one greeting. The resolver with history has
  the canonical name among its entities before it scans the terms, passes over that term
  and never searches for it; the resolver of the current turn searches for it and keeps
  the disease the database answers, which the other resolver does not return.
\<close>

theorem current_turn_entity_missing_with_history:
  "has_history greeting_history \<and>
   extract_entities_from_query_only urti_kg urti_cold = [cold, acute_urti] \<and>
   extract_entities_from_kg urti_kg urti_cold greeting_history = [cold, urti] \<and>
   \<not> set (extract_entities_from_query_only urti_kg urti_cold)
       \<subseteq> set (extract_entities_from_kg urti_kg urti_cold greeting_history)"
proof -
  have "acute_urti \<noteq> cold" "acute_urti \<noteq> urti"
    by (simp_all add: urti_def cold_def acute_urti_def)
  moreover have "has_history greeting_history"
    by (simp add: greeting_history_def)
  ultimately show ?thesis
    by (simp add: urti_cold_query_only urti_cold_with_history)
qed

text \<open>
  Claim C6, amended. For every question, every history and every state of the graph store,
  the entities of the resolver of the current turn are among those of the resolver with
  history, provided that no candidate term of the question (a match of two to six
  characters) is a canonical name that the synonym step has added to the entities of the
  table.
\<close>

theorem current_turn_entities_subset:
  assumes "\<forall>t \<in> set (potential_terms 6 q).
             t \<in> set (add_synonyms SYNONYMS q (extract_entities q)) \<longrightarrow>
             t \<in> set (extract_entities q)"
  shows "set (extract_entities_from_query_only kg q) \<subseteq> set (extract_entities_from_kg kg q h)"
proof -
  have "set (extract_entities_from_query_only kg q) \<subseteq> set (fst (current_turn_stage kg q))"
  proof (cases "is_connected kg")
    case True
    then show ?thesis
      using kg_term_scan_related [OF add_synonyms_extends assms, of kg "[]" "[]"]
      by (simp add: extract_entities_from_query_only_def
          extract_entities_from_query_only_traced_def current_turn_stage_def Let_def
          set_ordered_unique)
  next
    case False
    then show ?thesis
      using add_synonyms_extends [of "extract_entities q" SYNONYMS q]
      by (simp add: extract_entities_from_query_only_def
          extract_entities_from_query_only_traced_def current_turn_stage_def Let_def
          set_ordered_unique)
  qed
  also have "\<dots> \<subseteq> set (extract_entities_from_kg kg q h)"
    by (rule current_turn_in_result)
  finally show ?thesis .
qed

text \<open>The amended claim C6 on the question "gan mao", for which the synonym step adds
  a canonical name, with a history of one message.\<close>

theorem current_turn_entities_subset_witness:
  "potential_terms 6 cold = [cold] \<and>
   extract_entities cold = [cold] \<and>
   add_synonyms SYNONYMS cold (extract_entities cold) = [cold, urti] \<and>
   has_history greeting_history \<and>
   set (extract_entities_from_query_only urti_kg cold)
     \<subseteq> set (extract_entities_from_kg urti_kg cold greeting_history)"
proof -
  have tab: "potential_terms 6 cold = [cold]" "extract_entities cold = [cold]"
    "add_synonyms SYNONYMS cold (extract_entities cold) = [cold, urti]"
    by (simp_all add: extract_entities_def medical_terms_def SYNONYMS_def cold_def urti_def
        potential_terms_def is_cjk_def)
  have hyp: "\<forall>t \<in> set (potential_terms 6 cold).
      t \<in> set (add_synonyms SYNONYMS cold (extract_entities cold)) \<longrightarrow>
      t \<in> set (extract_entities cold)"
    unfolding tab by simp
  have "has_history greeting_history"
    by (simp add: greeting_history_def)
  then show ?thesis
    using tab current_turn_entities_subset [OF hyp, of urti_kg greeting_history] by blast
qed


section \<open>Which steps of the resolver run\<close>

text \<open>The stages keep the searches already sent, and the scan of the candidate terms
  sends a disease search for every term that is not among the entities found.\<close>

lemma kg_term_scan_keeps_log:
  "set sent \<subseteq> set (snd (kg_term_scan kg ts (found, sent)))"
proof (induction ts arbitrary: found sent)
  case Nil
  then show ?case by simp
next
  case (Cons t ts)
  have "set sent \<subseteq> set (snd (kg_term_scan kg ts (f, sent)))"
    and "set sent \<subseteq> set (snd (kg_term_scan kg ts (f, sent @ ps)))" for f ps
    using Cons.IH [where found = f and sent = sent]
      Cons.IH [where found = f and sent = "sent @ ps"] by auto
  then show ?case
    unfolding kg_term_scan_Cons by (simp split: list.splits)
qed

lemma history_term_scan_keeps_log:
  "set sent \<subseteq> set (snd (history_term_scan kg ts (found, sent)))"
proof (induction ts arbitrary: found sent)
  case Nil
  then show ?case by simp
next
  case (Cons t ts)
  have "set sent \<subseteq> set (snd (history_term_scan kg ts (f, sent)))"
    and "set sent \<subseteq> set (snd (history_term_scan kg ts (f, sent @ ps)))" for f ps
    using Cons.IH [where found = f and sent = sent]
      Cons.IH [where found = f and sent = "sent @ ps"] by auto
  then show ?case
    unfolding history_term_scan_Cons by (auto split: list.splits)
qed

lemma history_scan_keeps_log: "set (snd st) \<subseteq> set (snd (history_scan kg msgs st))"
proof (induction msgs arbitrary: st)
  case Nil
  then show ?case by simp
next
  case (Cons msg msgs)
  obtain found sent where st: "st = (found, sent)" by (cases st)
  show ?case
    unfolding st using Cons.IH [of "(found, sent)"]
      Cons.IH [of "history_term_scan kg (potential_terms 12 (content msg)) (found, sent)"]
      history_term_scan_keeps_log [of sent kg "potential_terms 12 (content msg)" found]
    by (auto simp: Let_def)
qed

lemma window_scan_keeps_log:
  "set sent \<subseteq> set (snd (window_scan kg subs (found, sent)))"
proof (induction subs arbitrary: found sent)
  case Nil
  then show ?case by simp
next
  case (Cons sub subs)
  have "set sent \<subseteq> set (snd (window_scan kg subs (f, sent)))"
    and "set sent \<subseteq> set (snd (window_scan kg subs (f, sent @ ps)))" for f ps
    using Cons.IH [where found = f and sent = sent]
      Cons.IH [where found = f and sent = "sent @ ps"] by auto
  then show ?case
    unfolding window_scan_Cons by (auto split: list.splits)
qed

lemma ngram_scan_keeps_log: "set (snd st) \<subseteq> set (snd (ngram_scan kg txt ns st))"
proof (induction ns arbitrary: st)
  case Nil
  then show ?case by simp
next
  case (Cons n ns)
  obtain found sent where st: "st = (found, sent)" by (cases st)
  show ?case
    unfolding st using Cons.IH [of "window_scan kg (windows n txt) (found, sent)"]
      window_scan_keeps_log [of sent kg "windows n txt" found]
    by (auto simp: Let_def)
qed

lemma history_merge_stage_keeps_log:
  "set (snd st) \<subseteq> set (snd (history_merge_stage kg q h st))"
proof (cases st)
  case (Pair found sent)
  show ?thesis
    unfolding Pair history_merge_stage_def Let_def
    using kg_term_scan_keeps_log by simp
qed

lemma kg_term_scan_probes:
  assumes "is_connected kg"
  shows "\<forall>t \<in> set ts. t \<in> set (fst (kg_term_scan kg ts (found, sent))) \<or>
           DiseaseSearch t 1 \<in> set (snd (kg_term_scan kg ts (found, sent)))"
proof (induction ts arbitrary: found sent)
  case Nil
  then show ?case by simp
next
  case (Cons t ts)
  have head: "t \<in> set (fst (kg_term_scan kg (t # ts) (found, sent))) \<or>
      DiseaseSearch t 1 \<in> set (snd (kg_term_scan kg (t # ts) (found, sent)))"
  proof (cases "t \<in> set found")
    case True
    then show ?thesis
      using kg_term_scan_extends [of found kg "t # ts" sent] by blast
  next
    case False
    have "DiseaseSearch t 1 \<in> set (snd (kg_term_scan kg ts (f, sent @ DiseaseSearch t 1 # ps)))"
      for f ps
      using kg_term_scan_keeps_log [of "sent @ DiseaseSearch t 1 # ps" kg ts f] by auto
    then show ?thesis
      unfolding kg_term_scan_Cons using False assms by (simp split: list.splits)
  qed
  have tail: "\<forall>u \<in> set ts. u \<in> set (fst (kg_term_scan kg (t # ts) (found, sent))) \<or>
      DiseaseSearch u 1 \<in> set (snd (kg_term_scan kg (t # ts) (found, sent)))"
    unfolding kg_term_scan_Cons using Cons.IH by (simp split: list.splits)
  show ?case using head tail by simp
qed

lemma backoff_stages_idle:
  assumes "fst st \<noteq> []"
  shows "aggressive_backoff_stage kg q (history_backoff_stage kg h st) = st"
  using assms by (simp add: aggressive_backoff_stage_def history_backoff_stage_def)

lemma headache_fever_table:
  "add_synonyms SYNONYMS headache_fever (extract_entities headache_fever) =
     [[22836, 30171], [21457, 28909]]"
  "potential_terms 6 headache_fever = [headache_fever]"
  by (simp_all add: extract_entities_def medical_terms_def SYNONYMS_def headache_fever_def
      potential_terms_def is_cjk_def)

lemma headache_fever_fresh:
  "headache_fever \<noteq> [22836, 30171]" "headache_fever \<noteq> [21457, 28909]"
  by (simp_all add: headache_fever_def)

lemma empty_kg_facts:
  "is_connected empty_kg" "disease_hits empty_kg kw n = []" "symptom_hits empty_kg kw n = []"
  by (simp_all add: empty_kg_def offline_kg_def)

text \<open>
  Claim C5, as stated, fails: for a question that names two terms of the table, with the
  graph store connected, the resolver still sends the disease search and the symptom
  search for the candidate term of the question (lines 123-136 run whenever the store is
  connected).
\<close>

theorem probes_sent_despite_table_hits:
  "extract_entities headache_fever \<noteq> [] \<and>
   extract_entities_from_kg empty_kg headache_fever None = [[22836, 30171], [21457, 28909]] \<and>
   snd (extract_entities_from_kg_traced empty_kg headache_fever None) =
     [DiseaseSearch headache_fever 1, SymptomSearch headache_fever 1]"
proof -
  have cur: "current_turn_stage empty_kg headache_fever =
      ([[22836, 30171], [21457, 28909]],
       [DiseaseSearch headache_fever 1, SymptomSearch headache_fever 1])"
    using headache_fever_fresh
    by (simp add: current_turn_stage_def headache_fever_table empty_kg_facts kg_term_scan_Cons
        Let_def del: kg_term_scan.simps(2))
  have tab: "extract_entities headache_fever \<noteq> []"
    by (simp add: extract_entities_def medical_terms_def headache_fever_def)
  show ?thesis
    using tab
    by (simp add: extract_entities_from_kg_def extract_entities_from_kg_traced_def cur
        history_backoff_stage_def aggressive_backoff_stage_def history_merge_stage_def
        ordered_unique_def Let_def)
qed

text \<open>
  Claim C5, amended. The searches for the candidate terms of the question run whenever the
  graph store is connected, also when the table or the synonyms gave entities: every
  candidate term is an entity of the result or was searched as a disease. The search back
  through the history and the aggressive search on the question alone run only if the
  table, the synonyms and the searches for the candidate terms together found nothing:
  when these found an entity, the result is that of the final merge with the history
  applied to their state, with no search sent in between.
\<close>

theorem backoff_only_after_probes:
  "(is_connected kg \<longrightarrow>
      (\<forall>t \<in> set (potential_terms 6 q).
         t \<in> set (extract_entities_from_kg kg q h) \<or>
         DiseaseSearch t 1 \<in> set (snd (extract_entities_from_kg_traced kg q h)))) \<and>
   (fst (current_turn_stage kg q) \<noteq> [] \<longrightarrow>
      extract_entities_from_kg_traced kg q h =
        (ordered_unique (fst (history_merge_stage kg q h (current_turn_stage kg q))),
         snd (history_merge_stage kg q h (current_turn_stage kg q))))"
proof (intro conjI impI ballI)
  fix t
  assume conn: "is_connected kg" and t: "t \<in> set (potential_terms 6 q)"
  let ?cur = "current_turn_stage kg q"
  let ?mid = "aggressive_backoff_stage kg q (history_backoff_stage kg h ?cur)"
  have cur: "?cur = kg_term_scan kg (potential_terms 6 q)
                      (add_synonyms SYNONYMS q (extract_entities q), [])"
    using conn by (simp add: current_turn_stage_def Let_def)
  have probed: "t \<in> set (fst ?cur) \<or> DiseaseSearch t 1 \<in> set (snd ?cur)"
    unfolding cur using kg_term_scan_probes [OF conn] t by blast
  have log1: "set (snd ?cur) \<subseteq> set (snd (history_backoff_stage kg h ?cur))"
    using history_scan_keeps_log [of ?cur] by (simp add: history_backoff_stage_def)
  have log2: "set (snd st) \<subseteq> set (snd (aggressive_backoff_stage kg q st))" for st
  proof (cases st)
    case (Pair found sent)
    have a: "set sent \<subseteq> set (snd (ngram_scan kg w ns (f, sent @ ps)))" for w ns f ps
      using ngram_scan_keeps_log [of "(f, sent @ ps)" kg w ns] by auto
    have b: "set sent \<subseteq> set (snd (ngram_scan kg w ns (f, sent)))" for w ns f
      using ngram_scan_keeps_log [of "(f, sent)" kg w ns] by auto
    show ?thesis
      unfolding Pair aggressive_backoff_stage_def Let_def search_disease_def
      using a b by (auto simp del: ngram_scan.simps)
  qed
  have log: "set (snd ?cur) \<subseteq> set (snd (extract_entities_from_kg_traced kg q h))"
    using log1 log2 [of "history_backoff_stage kg h ?cur"]
      history_merge_stage_keeps_log [of ?mid kg q h]
    by (auto simp: extract_entities_from_kg_traced_def Let_def)
  show "t \<in> set (extract_entities_from_kg kg q h) \<or>
         DiseaseSearch t 1 \<in> set (snd (extract_entities_from_kg_traced kg q h))"
    using probed log current_turn_in_result [of kg q h] by blast
next
  assume "fst (current_turn_stage kg q) \<noteq> []"
  then show "extract_entities_from_kg_traced kg q h =
        (ordered_unique (fst (history_merge_stage kg q h (current_turn_stage kg q))),
         snd (history_merge_stage kg q h (current_turn_stage kg q)))"
    by (simp add: extract_entities_from_kg_traced_def Let_def backoff_stages_idle)
qed

text \<open>The amended claim C5 on the question that names two terms of the table, with a
  history of one message.\<close>

theorem backoff_only_after_probes_witness:
  "is_connected empty_kg \<and> headache_fever \<in> set (potential_terms 6 headache_fever) \<and>
   fst (current_turn_stage empty_kg headache_fever) \<noteq> [] \<and>
   (headache_fever \<in> set (extract_entities_from_kg empty_kg headache_fever greeting_history) \<or>
    DiseaseSearch headache_fever 1
      \<in> set (snd (extract_entities_from_kg_traced empty_kg headache_fever greeting_history))) \<and>
   extract_entities_from_kg_traced empty_kg headache_fever greeting_history =
     (ordered_unique (fst (history_merge_stage empty_kg headache_fever greeting_history
                             (current_turn_stage empty_kg headache_fever))),
      snd (history_merge_stage empty_kg headache_fever greeting_history
             (current_turn_stage empty_kg headache_fever)))"
proof -
  have cur: "current_turn_stage empty_kg headache_fever =
      ([[22836, 30171], [21457, 28909]],
       [DiseaseSearch headache_fever 1, SymptomSearch headache_fever 1])"
    using headache_fever_fresh
    by (simp add: current_turn_stage_def headache_fever_table empty_kg_facts kg_term_scan_Cons
        Let_def del: kg_term_scan.simps(2))
  have found: "fst (current_turn_stage empty_kg headache_fever) \<noteq> []"
    unfolding cur by simp
  have conn: "is_connected empty_kg" and cand: "headache_fever \<in> set (potential_terms 6 headache_fever)"
    by (simp_all add: empty_kg_facts headache_fever_table)
  show ?thesis
    using conn cand found
      backoff_only_after_probes [of empty_kg headache_fever greeting_history]
    by blast
qed


end
